theory Spec2Isabelle
  imports Main
begin

section \<open>Python strings\<close>

text \<open>
  A Python \<open>str\<close> is modelled as a \<open>string\<close> whose characters are the code points
  below 256.  \<open>isspace\<close> lists the code points in that range that Python's
  \<open>str.isspace\<close> accepts, which are the ones \<open>str.strip()\<close> removes.
\<close>

definition isspace :: "char \<Rightarrow> bool" where
  "isspace c = (of_char c \<in> {9, 10, 11, 12, 13, 28, 29, 30, 31, 32, 133, 160 :: nat})"

definition lstrip :: "string \<Rightarrow> string" where
  "lstrip s = dropWhile isspace s"

definition rstrip :: "string \<Rightarrow> string" where
  "rstrip s = rev (dropWhile isspace (rev s))"

definition strip :: "string \<Rightarrow> string" where
  "strip s = rstrip (lstrip s)"

text \<open>\<open>str.lower()\<close> on code points below 256: A-Z and the Latin-1 capitals.\<close>

definition lower_char :: "char \<Rightarrow> char" where
  "lower_char c =
     (let n = (of_char c :: nat)
      in if (65 \<le> n \<and> n \<le> 90) \<or> (192 \<le> n \<and> n \<le> 222 \<and> n \<noteq> 215)
         then char_of (n + 32) else c)"

definition lower :: "string \<Rightarrow> string" where
  "lower s = map lower_char s"

text \<open>\<open>x or d\<close> for an optional string \<open>x\<close>: \<open>None\<close> and \<open>""\<close> are falsy.\<close>

definition or_str :: "string option \<Rightarrow> string \<Rightarrow> string" where
  "or_str x d = (case x of None \<Rightarrow> d | Some s \<Rightarrow> if s = [] then d else s)"

text \<open>\<open>x or y\<close> for two optional strings, as used for the API keys.\<close>

definition or_opt :: "string option \<Rightarrow> string option \<Rightarrow> string option" where
  "or_opt x y = (case x of None \<Rightarrow> y | Some s \<Rightarrow> if s = [] then y else Some s)"

text \<open>Truthiness of an optional string (\<open>if not api_key\<close>).\<close>

definition truthy :: "string option \<Rightarrow> bool" where
  "truthy x = (case x of None \<Rightarrow> False | Some s \<Rightarrow> s \<noteq> [])"

text \<open>\<open>sep.join(parts)\<close>.\<close>

fun join :: "string \<Rightarrow> string list \<Rightarrow> string" where
  "join sep [] = []"
| "join sep [x] = x"
| "join sep (x # y # ys) = x @ sep @ join sep (y # ys)"

section \<open>Data\<close>

text \<open>A LangChain \<open>Document\<close>: its text and its metadata.\<close>

record doc =
  page_content :: string
  metadata :: "(string \<times> string) list"

text \<open>
  Python exceptions.  \<open>BackendError c\<close> is an exception of class \<open>c\<close> raised inside a
  library call (a loader, the splitter, an embedding or chat client, the vector store).
  \<open>WithContext b a\<close> is the exception \<open>b\<close> raised while \<open>a\<close> was being handled:
  Python chains them, \<open>b.__context__\<close> is \<open>a\<close>.
\<close>

datatype error =
    FileNotFoundError string
  | ValueError string
  | RuntimeError string
  | ImportError string
  | BackendError string
  | WithContext error error

text \<open>The class of the exception that is raised.\<close>

fun exn_class :: "error \<Rightarrow> string" where
  "exn_class (FileNotFoundError m) = ''FileNotFoundError''"
| "exn_class (ValueError m) = ''ValueError''"
| "exn_class (RuntimeError m) = ''RuntimeError''"
| "exn_class (ImportError m) = ''ImportError''"
| "exn_class (BackendError c) = c"
| "exn_class (WithContext b a) = exn_class b"

type_synonym vector = "int list"

datatype embedding = OpenAIEmbeddings | HuggingFaceEmbeddings string

datatype chat_model =
    ChatOpenAI string "string option"
  | ChatGoogleGenerativeAI string "string option"
  | ChatAnthropic string "string option"
  | ChatGroq string "string option"

datatype message = SystemMessage string | HumanMessage string

text \<open>
  What a chat backend returns: \<open>content\<close> is the \<open>content\<close> attribute (\<open>None\<close> when
  the object has none), \<open>str_repr\<close> is \<open>str(result)\<close>.
\<close>

record response =
  content :: "string option"
  str_repr :: string

text \<open>The retriever object returned by \<open>vectorstore.as_retriever\<close>.\<close>

record retriever =
  collection :: string
  search_type :: string
  k :: nat
  fetch_k :: nat

text \<open>The dictionary a chain invocation returns.\<close>

record qa_result =
  answer :: string
  context_docs :: "doc list"

section \<open>The outside world\<close>

text \<open>
  Every call that leaves the repository is recorded as an event, in call order.
\<close>

datatype event =
    EvLoad string string
  | EvSplit nat nat "doc list"
  | EvOpen string
  | EvEmbed string
  | EvPersist string nat
  | EvRetrieve string string
  | EvChat chat_model "message list"

text \<open>
  The outcomes of the external calls are parameters of the model: the file system, the
  process environment, the installed client libraries, the document loaders, the
  constructors of the embedding and chat clients, the text splitter, the embedding
  backend, the vector store and the chat backend.

  \<open>chat_model_init\<close> is a chat client's constructor: whether it raises, and the calls
  it makes by itself.  \<open>chroma_open\<close> is the \<open>Chroma(...)\<close> constructor called by
  \<open>get_retriever\<close> for a collection name and \<open>chroma_create\<close> the same constructor
  as \<open>Chroma.from_documents\<close> calls it (either raises, for one, on a name the store
  rejects; the two calls are made one after the other and need not have the same
  outcome), \<open>count_error\<close> the \<open>count()\<close> of an opened collection when it raises, and
  \<open>chroma_add\<close> the write of a batch of (vector, chunk) pairs.
\<close>

record env =
  path_exists :: "string \<Rightarrow> bool"
  getenv :: "string \<Rightarrow> string option"
  importable :: "string \<Rightarrow> bool"
  PyPDFLoader :: "string \<Rightarrow> error + doc list"
  PyMuPDFLoader :: "string \<Rightarrow> error + doc list"
  UnstructuredWordDocumentLoader :: "string \<Rightarrow> error + doc list"
  TextLoader :: "string \<Rightarrow> error + doc list"
  embeddings_init :: "embedding \<Rightarrow> error option"
  chat_model_init :: "chat_model \<Rightarrow> error option \<times> event list"
  split_documents :: "nat \<Rightarrow> nat \<Rightarrow> doc list \<Rightarrow> error + doc list"
  chroma_open :: "string \<Rightarrow> error option"
  chroma_create :: "string \<Rightarrow> error option"
  count_error :: "string \<Rightarrow> error option"
  chroma_add :: "string \<Rightarrow> (vector \<times> doc) list \<Rightarrow> error option"
  embed :: "embedding \<Rightarrow> string \<Rightarrow> error + vector"
  mmr :: "(vector \<times> doc) list \<Rightarrow> nat \<Rightarrow> nat \<Rightarrow> string \<Rightarrow> error + doc list"
  chat :: "chat_model \<Rightarrow> message list \<Rightarrow> error + response"

text \<open>
  The mutable part: the persisted vector collections, by name, and the log of external
  calls made so far.
\<close>

record state =
  store :: "string \<Rightarrow> (vector \<times> doc) list"
  calls :: "event list"

definition emit :: "event \<Rightarrow> state \<Rightarrow> state" where
  "emit ev s = s\<lparr>calls := calls s @ [ev]\<rparr>"

section \<open>conversation\_chain.py\<close>

definition system_prompt :: "string \<Rightarrow> string" where
  "system_prompt ctx =
     ''You are a legal expert and contract analyzer.'' @ [CHR 0x0A] @
     ''Use the following context to answer the user's question thoroughly and accurately.''
       @ [CHR 0x0A] @ [CHR 0x0A] @
     ''If you cannot find the answer in the context, say '' @ [CHR 0x22] @
     ''I don't know based on the provided document.'' @ [CHR 0x22] @ [CHR 0x0A] @ [CHR 0x0A] @
     ''Context:'' @ [CHR 0x0A] @ ctx"

text \<open>\<open>prompt.format_messages(context=..., input=...)\<close>.\<close>

definition format_messages :: "string \<Rightarrow> string \<Rightarrow> message list" where
  "format_messages ctx inp = [SystemMessage (system_prompt ctx), HumanMessage inp]"

text \<open>\<open>retriever.get_relevant_documents(question)\<close>: the ranking query of the store.\<close>

definition get_relevant_documents ::
  "env \<Rightarrow> retriever \<Rightarrow> string \<Rightarrow> state \<Rightarrow> (error + doc list) \<times> state" where
  "get_relevant_documents e r q s =
     (mmr e (store s (collection r)) (k r) (fetch_k r) q,
      emit (EvRetrieve (collection r) q) s)"

text \<open>\<open>chat_model.invoke(messages)\<close>.\<close>

definition chat_invoke ::
  "env \<Rightarrow> chat_model \<Rightarrow> message list \<Rightarrow> state \<Rightarrow> (error + response) \<times> state" where
  "chat_invoke e cm msgs s = (chat e cm msgs, emit (EvChat cm msgs) s)"

text \<open>\<open>getattr(result, "content", None) or str(result)\<close>.\<close>

definition response_text :: "response \<Rightarrow> string" where
  "response_text r = or_str (content r) (str_repr r)"

text \<open>
  The body \<open>_invoke\<close> of the chain built by \<open>create_retrieval_qa_chain\<close>; \<open>inp\<close> is
  \<open>inputs.get("input")\<close>.
\<close>

definition create_retrieval_qa_chain ::
  "env \<Rightarrow> chat_model \<Rightarrow> retriever option \<Rightarrow> string option \<Rightarrow> state
     \<Rightarrow> (error + qa_result) \<times> state" where
  "create_retrieval_qa_chain e cm rt inp s =
     (let question = strip (or_str inp [])
      in if question = [] then (Inr \<lparr>answer = [], context_docs = []\<rparr>, s)
         else
           (case (case rt of None \<Rightarrow> (Inr [], s)
                           | Some r \<Rightarrow> get_relevant_documents e r question s) of
              (Inl err, s1) \<Rightarrow> (Inl err, s1)
            | (Inr docs, s1) \<Rightarrow>
                (let context_text =
                       join [CHR 0x0A, CHR 0x0A]
                         (map page_content (filter (\<lambda>d. page_content d \<noteq> []) docs));
                     messages = format_messages context_text question
                 in (case chat_invoke e cm messages s1 of
                       (Inl err, s2) \<Rightarrow> (Inl err, s2)
                     | (Inr result, s2) \<Rightarrow>
                         (Inr \<lparr>answer = response_text result, context_docs = docs\<rparr>, s2)))))"

section \<open>os.path\<close>

definition isabs :: "string \<Rightarrow> bool" where
  "isabs p = (case p of [] \<Rightarrow> False | c # _ \<Rightarrow> c = CHR ''/'')"

definition path_join :: "string \<Rightarrow> string \<Rightarrow> string" where
  "path_join a b =
     (if isabs b then b
      else if a = [] \<or> last a = CHR ''/'' then a @ b
      else a @ ''/'' @ b)"

definition basename :: "string \<Rightarrow> string" where
  "basename p = rev (takeWhile (\<lambda>c. c \<noteq> CHR ''/'') (rev p))"

definition dirpart :: "string \<Rightarrow> string" where
  "dirpart p = rev (dropWhile (\<lambda>c. c \<noteq> CHR ''/'') (rev p))"

text \<open>
  \<open>os.path.splitext\<close>: the extension starts at the last dot of the last path component,
  unless only dots precede it there.
\<close>

definition splitext :: "string \<Rightarrow> string \<times> string" where
  "splitext p =
     (let base = basename p;
          ext_rev = takeWhile (\<lambda>c. c \<noteq> CHR ''.'') (rev base)
      in case dropWhile (\<lambda>c. c \<noteq> CHR ''.'') (rev base) of
           [] \<Rightarrow> (p, [])
         | dot # pre_rev \<Rightarrow>
             if list_ex (\<lambda>c. c \<noteq> CHR ''.'') pre_rev
             then (dirpart p @ rev pre_rev, dot # rev ext_rev)
             else (p, []))"

section \<open>data\_loader.py\<close>

definition resolve_path :: "string \<Rightarrow> string \<Rightarrow> string" where
  "resolve_path uploads_dir uploaded_file =
     (if isabs uploaded_file then uploaded_file else path_join uploads_dir uploaded_file)"

text \<open>
  \<open>LoadDocuments.load_document\<close>.  For a PDF the first loader runs inside
  \<open>try\<close>; the second loader runs inside the \<open>except Exception\<close> handler, so an
  exception it raises is chained to the one being handled.
\<close>

definition load_document ::
  "env \<Rightarrow> string \<Rightarrow> string \<Rightarrow> state \<Rightarrow> (error + doc list) \<times> state" where
  "load_document e uploads_dir uploaded_file s =
     (let file_path = resolve_path uploads_dir uploaded_file
      in if \<not> path_exists e file_path
         then (Inl (FileNotFoundError (''Uploaded file not found: '' @ file_path)), s)
         else
           (let ext = lower (snd (splitext file_path))
            in if ext = ''.pdf'' then
                 (case PyPDFLoader e file_path of
                    Inr docs \<Rightarrow> (Inr docs, emit (EvLoad ''PyPDFLoader'' file_path) s)
                  | Inl a \<Rightarrow>
                      ((case PyMuPDFLoader e file_path of
                          Inr docs \<Rightarrow> Inr docs
                        | Inl b \<Rightarrow> Inl (WithContext b a)),
                       emit (EvLoad ''PyMuPDFLoader'' file_path)
                         (emit (EvLoad ''PyPDFLoader'' file_path) s)))
               else if ext = ''.doc'' \<or> ext = ''.docx'' then
                 (UnstructuredWordDocumentLoader e file_path,
                  emit (EvLoad ''UnstructuredWordDocumentLoader'' file_path) s)
               else if ext = ''.txt'' then
                 (TextLoader e file_path, emit (EvLoad ''TextLoader'' file_path) s)
               else (Inl (ValueError (''Unsupported file type for RAG pipeline: '' @ ext)), s)))"

section \<open>embedding.py\<close>

text \<open>\<open>EmbeddingsCreator.__init__\<close>: the override, trimmed and lower-cased, or \<open>None\<close>.\<close>

definition EmbeddingsCreator_provider :: "env \<Rightarrow> string option" where
  "EmbeddingsCreator_provider e =
     (let p = lower (strip (or_str (getenv e ''LEGAL_EAGLE_EMBEDDINGS_PROVIDER'') []))
      in if p = [] then None else Some p)"

text \<open>Running an embeddings constructor, which may raise.\<close>

definition construct :: "env \<Rightarrow> embedding \<Rightarrow> error + embedding" where
  "construct e emb = (case embeddings_init e emb of None \<Rightarrow> Inr emb | Some err \<Rightarrow> Inl err)"

definition create_embeddings :: "env \<Rightarrow> error + embedding" where
  "create_embeddings e =
     (let provider = EmbeddingsCreator_provider e;
          provider =
            (if provider \<noteq> Some ''openai'' \<and> provider \<noteq> Some ''huggingface''
             then (if truthy (getenv e ''OPENAI_API_KEY'') then Some ''openai''
                   else Some ''huggingface'')
             else provider)
      in if provider = Some ''openai'' then construct e OpenAIEmbeddings
         else construct e (HuggingFaceEmbeddings
                (case getenv e ''LEGAL_EAGLE_HF_EMBEDDING_MODEL'' of
                   None \<Rightarrow> ''sentence-transformers/all-MiniLM-L6-v2''
                 | Some m \<Rightarrow> m)))"

section \<open>retriever.py\<close>

record Retriever =
  documents :: "doc list"
  embedding :: embedding
  persist_directory :: string
  collection_name :: string

definition Retriever_init ::
  "doc list \<Rightarrow> embedding \<Rightarrow> string \<Rightarrow> string option \<Rightarrow> Retriever" where
  "Retriever_init docs emb dir name =
     \<lparr>documents = docs, embedding = emb, persist_directory = dir,
      collection_name = or_str name ''contract''\<rparr>"

text \<open>
  \<open>Chroma.from_documents\<close>: the collection is opened by a constructor call of its
  own; every chunk is embedded, in order; the batch of (vector, chunk) pairs is
  written to the named collection.  It raises when the constructor raises, when an
  embedding call raises and when the write raises (whether the store accepts an empty
  batch is the store's matter, hence part of \<open>chroma_add\<close>); nothing is stored
  then.  The application uses one persist directory, so collections are keyed by name.
\<close>

fun embed_all ::
  "env \<Rightarrow> embedding \<Rightarrow> doc list \<Rightarrow> state \<Rightarrow> (error + (vector \<times> doc) list) \<times> state" where
  "embed_all e emb [] s = (Inr [], s)"
| "embed_all e emb (d # ds) s =
     (case embed e emb (page_content d) of
        Inl err \<Rightarrow> (Inl err, emit (EvEmbed (page_content d)) s)
      | Inr v \<Rightarrow>
          (case embed_all e emb ds (emit (EvEmbed (page_content d)) s) of
             (Inl err, s') \<Rightarrow> (Inl err, s')
           | (Inr ps, s') \<Rightarrow> (Inr ((v, d) # ps), s')))"

definition from_documents ::
  "env \<Rightarrow> embedding \<Rightarrow> string \<Rightarrow> doc list \<Rightarrow> state \<Rightarrow> (error + unit) \<times> state" where
  "from_documents e emb name splits s =
     (let s0 = emit (EvOpen name) s
      in case chroma_create e name of
           Some err \<Rightarrow> (Inl err, s0)
         | None \<Rightarrow>
             (case embed_all e emb splits s0 of
                (Inl err, s') \<Rightarrow> (Inl err, s')
              | (Inr ps, s') \<Rightarrow>
                  (case chroma_add e name ps of
                     Some err \<Rightarrow> (Inl err, emit (EvPersist name (length ps)) s')
                   | None \<Rightarrow>
                       (Inr (),
                        emit (EvPersist name (length ps))
                          (s'\<lparr>store := (store s')(name := store s' name @ ps)\<rparr>)))))"

definition as_retriever :: "string \<Rightarrow> retriever" where
  "as_retriever name = \<lparr>collection = name, search_type = ''mmr'', k = 6, fetch_k = 20\<rparr>"

text \<open>
  \<open>Retriever.get_retriever\<close>.  The documents are split first; then the persisted
  collection is opened and counted, and any exception there (a failed open, a failed
  count, or the \<open>ValueError\<close> raised for a count of zero) leads to
  \<open>Chroma.from_documents\<close>.  The outer handler turns every remaining exception,
  those of \<open>Chroma.from_documents\<close> included, into the result \<open>None\<close>.
  \<open>as_retriever\<close> with its constant arguments only builds the retriever object.
\<close>

definition get_retriever :: "env \<Rightarrow> Retriever \<Rightarrow> state \<Rightarrow> retriever option \<times> state" where
  "get_retriever e r s =
     (let s1 = emit (EvSplit 1200 150 (documents r)) s
      in case split_documents e 1200 150 (documents r) of
           Inl err \<Rightarrow> (None, s1)
         | Inr splits \<Rightarrow>
             (let s2 = emit (EvOpen (collection_name r)) s1
              in if chroma_open e (collection_name r) = None
                    \<and> count_error e (collection_name r) = None
                    \<and> length (store s2 (collection_name r)) \<noteq> 0
                 then (Some (as_retriever (collection_name r)), s2)
                 else
                   (case from_documents e (embedding r) (collection_name r) splits s2 of
                      (Inl err, s3) \<Rightarrow> (None, s3)
                    | (Inr u, s3) \<Rightarrow> (Some (as_retriever (collection_name r)), s3))))"

section \<open>chat\_model.py\<close>

record ChatModel =
  provider :: string
  model_name :: string
  api_key :: "string option"

definition ChatModel_init :: "string \<Rightarrow> string \<Rightarrow> string option \<Rightarrow> ChatModel" where
  "ChatModel_init p m key =
     \<lparr>provider = lower (or_str (Some p) ''openai''), model_name = m, api_key = key\<rparr>"

text \<open>
  Calling a chat client's constructor: it may raise, and whatever calls the constructor
  makes by itself are logged.
\<close>

definition construct_chat_model ::
  "env \<Rightarrow> chat_model \<Rightarrow> state \<Rightarrow> (error + chat_model) \<times> state" where
  "construct_chat_model e cm s =
     ((case fst (chat_model_init e cm) of None \<Rightarrow> Inr cm | Some err \<Rightarrow> Inl err),
      s\<lparr>calls := calls s @ snd (chat_model_init e cm)\<rparr>)"

text \<open>
  \<open>ChatModel.initialize_chat_model\<close>.  The three optional libraries are imported
  inside \<open>try\<close>, and \<open>RuntimeError\<close> is raised inside the \<open>except ImportError\<close>
  handler; the import of \<open>langchain_openai\<close> is not guarded.
\<close>

definition initialize_chat_model ::
  "env \<Rightarrow> ChatModel \<Rightarrow> state \<Rightarrow> (error + chat_model) \<times> state" where
  "initialize_chat_model e c s =
     (if provider c = ''openai'' then
        (if importable e ''langchain_openai''
         then construct_chat_model e (ChatOpenAI (model_name c) (api_key c)) s
         else (Inl (ImportError ''langchain_openai''), s))
      else if provider c = ''gemini'' then
        (if importable e ''langchain_google_genai''
         then construct_chat_model e (ChatGoogleGenerativeAI (model_name c) (api_key c)) s
         else (Inl (WithContext
                 (RuntimeError
                    ''Gemini provider selected but 'langchain-google-genai' is not installed.'')
                 (ImportError ''langchain_google_genai'')), s))
      else if provider c = ''claude'' then
        (if importable e ''langchain_anthropic''
         then construct_chat_model e (ChatAnthropic (model_name c) (api_key c)) s
         else (Inl (WithContext
                 (RuntimeError
                    ''Claude provider selected but 'langchain-anthropic' is not installed.'')
                 (ImportError ''langchain_anthropic'')), s))
      else if provider c = ''groq'' then
        (if importable e ''langchain_groq''
         then construct_chat_model e (ChatGroq (model_name c) (api_key c)) s
         else (Inl (WithContext
                 (RuntimeError
                    ''Groq provider selected but 'langchain-groq' is not installed.'')
                 (ImportError ''langchain_groq'')), s))
      else (Inl (ValueError (''Unsupported LLM provider: '' @ provider c)), s))"

section \<open>rag\_pipeline.py\<close>

record RAGPipeline =
  uploaded_file :: string
  vector_db_path :: string
  llm_provider :: string
  llm_model :: string
  llm_api_key :: "string option"

definition RAGPipeline_init :: "string \<Rightarrow> string \<Rightarrow> RAGPipeline" where
  "RAGPipeline_init f path =
     \<lparr>uploaded_file = f, vector_db_path = path, llm_provider = ''openai'',
      llm_model = ''gpt-4o-mini'', llm_api_key = None\<rparr>"

definition pipeline ::
  "env \<Rightarrow> RAGPipeline \<Rightarrow> state \<Rightarrow> (error + retriever option) \<times> state" where
  "pipeline e rp s =
     (case load_document e ''uploads'' (uploaded_file rp) s of
        (Inl err, s1) \<Rightarrow> (Inl err, s1)
      | (Inr docs, s1) \<Rightarrow>
          (case create_embeddings e of
             Inl err \<Rightarrow> (Inl err, s1)
           | Inr emb \<Rightarrow>
               (let name = or_str (Some (fst (splitext (basename (uploaded_file rp)))))
                             ''contract''
                in case get_retriever e
                          (Retriever_init docs emb (vector_db_path rp) (Some name)) s1 of
                     (rt, s2) \<Rightarrow> (Inr rt, s2))))"

text \<open>
  \<open>qa_chain\<close> returns the chain, here the pair of chat model and retriever that the
  chain closes over; invoking it is \<open>create_retrieval_qa_chain\<close> on that pair.
\<close>

definition qa_chain ::
  "env \<Rightarrow> RAGPipeline \<Rightarrow> state \<Rightarrow> (error + chat_model \<times> retriever option) \<times> state" where
  "qa_chain e rp s =
     (case initialize_chat_model e
             (ChatModel_init (llm_provider rp) (llm_model rp) (llm_api_key rp)) s of
        (Inl err, s0) \<Rightarrow> (Inl err, s0)
      | (Inr cm, s0) \<Rightarrow>
          (case pipeline e rp s0 of
             (Inl err, s1) \<Rightarrow> (Inl err, s1)
           | (Inr rt, s1) \<Rightarrow> (Inr (cm, rt), s1)))"

section \<open>server.py\<close>

record Document =
  doc_id :: nat
  user_id :: nat
  filename :: string
  original_name :: string
  file_path :: string
  file_size :: nat
  indexed :: bool

text \<open>The \<open>llm_settings\<close> row of a user; \<open>settings_model_name\<close> is its \<open>model_name\<close>.\<close>

record LLMSettings =
  preferred_provider :: "string option"
  settings_model_name :: "string option"
  openai_api_key :: "string option"
  gemini_api_key :: "string option"
  claude_api_key :: "string option"
  groq_api_key :: "string option"

type_synonym chunk_view = "nat \<times> string \<times> (string \<times> string) list"

record ChatHistory =
  chat_id :: nat
  chat_user_id :: nat
  chat_document_id :: nat
  chat_question :: string
  chat_answer :: string
  context_json :: "chunk_view list option"

record database =
  documents_table :: "Document list"
  settings_table :: "(nat \<times> LLMSettings) list"
  chat_table :: "ChatHistory list"

text \<open>The JSON bodies the routes return.\<close>

datatype body =
    ErrorBody string
  | DocumentBody Document
  | ChatBody nat string "chunk_view list"
  | ChunksBody "chunk_view list"

definition vector_store_db :: string where
  "vector_store_db = ''../data/chroma_db''"

definition upload_dir :: string where
  "upload_dir = ''uploads''"

definition next_id :: "nat list \<Rightarrow> nat" where
  "next_id ids = Suc (fold max ids 0)"

definition update_document :: "Document \<Rightarrow> Document list \<Rightarrow> Document list" where
  "update_document d ds = map (\<lambda>x. if doc_id x = doc_id d then d else x) ds"

text \<open>
  \<open>upload_document\<close> from the point where the file has been saved under
  \<open>storage_name\<close>: the document row is committed with \<open>indexed=False\<close>, then the index
  is built inside \<open>try\<close>; \<open>indexed\<close> is set when \<open>rag.pipeline()\<close> returns, whatever
  it returns, and \<open>except Exception\<close> only logs.
\<close>

definition upload_document ::
  "env \<Rightarrow> nat \<Rightarrow> string \<Rightarrow> string \<Rightarrow> nat \<Rightarrow> database \<Rightarrow> state
     \<Rightarrow> (nat \<times> body) \<times> database \<times> state" where
  "upload_document e uid storage_name original sz db s =
     (let document =
            \<lparr>doc_id = next_id (map doc_id (documents_table db)), user_id = uid,
             filename = storage_name, original_name = original,
             file_path = path_join upload_dir storage_name, file_size = sz,
             indexed = False\<rparr>;
          db1 = db\<lparr>documents_table := documents_table db @ [document]\<rparr>
      in case pipeline e (RAGPipeline_init storage_name vector_store_db) s of
           (Inr rt, s1) \<Rightarrow>
             (let document' = document\<lparr>indexed := True\<rparr>
              in ((201, DocumentBody document'),
                  db1\<lparr>documents_table := update_document document' (documents_table db1)\<rparr>,
                  s1))
         | (Inl err, s1) \<Rightarrow> ((201, DocumentBody document), db1, s1))"

definition default_settings :: LLMSettings where
  "default_settings =
     \<lparr>preferred_provider = Some ''openai'', settings_model_name = Some ''gpt-4o-mini'',
      openai_api_key = None, gemini_api_key = None, claude_api_key = None,
      groq_api_key = None\<rparr>"

definition get_or_create_llm_settings :: "database \<Rightarrow> nat \<Rightarrow> LLMSettings \<times> database" where
  "get_or_create_llm_settings db uid =
     (case map_of (settings_table db) uid of
        Some st \<Rightarrow> (st, db)
      | None \<Rightarrow>
          (default_settings,
           db\<lparr>settings_table := settings_table db @ [(uid, default_settings)]\<rparr>))"

text \<open>\<open>str.title()\<close> on ASCII letters.\<close>

definition is_upper :: "char \<Rightarrow> bool" where
  "is_upper c = (65 \<le> (of_char c :: nat) \<and> (of_char c :: nat) \<le> 90)"

definition is_lower :: "char \<Rightarrow> bool" where
  "is_lower c = (97 \<le> (of_char c :: nat) \<and> (of_char c :: nat) \<le> 122)"

definition upper_char :: "char \<Rightarrow> char" where
  "upper_char c = (if is_lower c then char_of ((of_char c :: nat) - 32) else c)"

fun title_from :: "bool \<Rightarrow> string \<Rightarrow> string" where
  "title_from prev [] = []"
| "title_from prev (c # cs) =
     (if is_upper c \<or> is_lower c
      then (if prev then lower_char c else upper_char c) # title_from True cs
      else c # title_from False cs)"

definition title :: "string \<Rightarrow> string" where
  "title s = title_from False s"

text \<open>The request body of the chat route.\<close>

record chat_request =
  question :: "string option"
  req_provider :: "string option"
  req_model_name :: "string option"

text \<open>An optional request field, trimmed, \<open>None\<close> when nothing is left.\<close>

definition opt_field :: "string \<Rightarrow> string option" where
  "opt_field v = (if v = [] then None else Some v)"

text \<open>The provider choice of \<open>chat_with_document\<close>.\<close>

definition resolve_provider :: "chat_request \<Rightarrow> LLMSettings \<Rightarrow> string" where
  "resolve_provider req st =
     lower (or_str (opt_field (lower (strip (or_str (req_provider req) []))))
              (or_str (preferred_provider st) ''openai''))"

text \<open>The model name, with the default of each provider.\<close>

definition resolve_model :: "chat_request \<Rightarrow> LLMSettings \<Rightarrow> string \<Rightarrow> string" where
  "resolve_model req st p =
     (case opt_field (strip (or_str (req_model_name req) [])) of
        Some m \<Rightarrow> m
      | None \<Rightarrow>
          (if truthy (settings_model_name st) then or_str (settings_model_name st) []
           else if p = ''openai'' then ''gpt-4o-mini''
           else if p = ''gemini'' then ''gemini-1.5-pro-latest''
           else if p = ''claude'' then ''claude-3-5-sonnet-20241022''
           else ''llama3-70b-8192''))"

text \<open>
  The API key by provider: the key stored for the user, or else the key the process read
  from its environment at start-up.  \<open>None\<close> as the outer result is the final
  \<open>else\<close> branch.
\<close>

definition resolve_api_key :: "env \<Rightarrow> LLMSettings \<Rightarrow> string \<Rightarrow> string option option" where
  "resolve_api_key e st p =
     (if p = ''openai'' then Some (or_opt (openai_api_key st) (getenv e ''OPENAI_API_KEY''))
      else if p = ''gemini'' then Some (or_opt (gemini_api_key st) (getenv e ''GEMINI_API_KEY''))
      else if p = ''claude'' then
        Some (or_opt (claude_api_key st) (getenv e ''ANTHROPIC_API_KEY''))
      else if p = ''groq'' then Some (or_opt (groq_api_key st) (getenv e ''GROQ_API_KEY''))
      else None)"

text \<open>The retrieval context as it is serialised for the client.\<close>

definition enumerate_docs :: "doc list \<Rightarrow> (nat \<times> doc) list" where
  "enumerate_docs ds = zip [0 ..< length ds] ds"

definition serialize_contexts :: "doc list \<Rightarrow> chunk_view list" where
  "serialize_contexts ds =
     map (\<lambda>(i, d). (i, page_content d, metadata d))
       (filter (\<lambda>(i, d). page_content d \<noteq> []) (enumerate_docs ds))"

definition chat_with_document ::
  "env \<Rightarrow> chat_request \<Rightarrow> nat \<Rightarrow> nat \<Rightarrow> database \<Rightarrow> state
     \<Rightarrow> (nat \<times> body) \<times> database \<times> state" where
  "chat_with_document e req uid document_id db s =
     (let q = strip (or_str (question req) [])
      in if q = [] then ((400, ErrorBody ''Question is required''), db, s)
         else
           (case find (\<lambda>d. doc_id d = document_id \<and> user_id d = uid) (documents_table db) of
              None \<Rightarrow> ((404, ErrorBody ''Document not found''), db, s)
            | Some document \<Rightarrow>
                (case get_or_create_llm_settings db uid of
                   (st, db1) \<Rightarrow>
                     (let p = resolve_provider req st
                      in if p \<noteq> ''openai'' \<and> p \<noteq> ''gemini'' \<and> p \<noteq> ''claude'' \<and> p \<noteq> ''groq''
                         then ((400, ErrorBody ''Unsupported LLM provider''), db1, s)
                         else
                           (let m = resolve_model req st p
                            in case resolve_api_key e st p of
                                 None \<Rightarrow> ((400, ErrorBody ''Unsupported LLM provider''), db1, s)
                               | Some key \<Rightarrow>
                                   if \<not> truthy key
                                   then ((400, ErrorBody
                                           (''No API key configured for provider '' @ title p)),
                                         db1, s)
                                   else
                                     (case qa_chain e
                                             \<lparr>uploaded_file = filename document,
                                              vector_db_path = vector_store_db,
                                              llm_provider = p, llm_model = m,
                                              llm_api_key = key\<rparr> s of
                                        (Inl err, s1) \<Rightarrow>
                                          ((500, ErrorBody ''Failed to analyze document''),
                                           db1, s1)
                                      | (Inr (cm, rt), s1) \<Rightarrow>
                                          (let db2 = db1\<lparr>documents_table :=
                                                 update_document (document\<lparr>indexed := True\<rparr>)
                                                   (documents_table db1)\<rparr>
                                           in case create_retrieval_qa_chain e cm rt (Some q) s1 of
                                                (Inl err, s2) \<Rightarrow>
                                                  ((500, ErrorBody ''Error generating answer''),
                                                   db2, s2)
                                              | (Inr res, s2) \<Rightarrow>
                                                  (let contexts =
                                                         serialize_contexts (context_docs res);
                                                       entry =
                                                         \<lparr>chat_id =
                                                            next_id (map chat_id (chat_table db2)),
                                                          chat_user_id = uid,
                                                          chat_document_id = doc_id document,
                                                          chat_question = q,
                                                          chat_answer = answer res,
                                                          context_json =
                                                            (if contexts = [] then None
                                                             else Some contexts)\<rparr>
                                                   in ((200, ChatBody (chat_id entry)
                                                              (chat_answer entry) contexts),
                                                       db2\<lparr>chat_table := chat_table db2 @ [entry]\<rparr>,
                                                       s2)))))))))"


section \<open>The Answer operation and auxiliary notions\<close>

text \<open>
  Answering a question is \<open>rag.qa_chain()\<close> followed by \<open>chain.invoke\<close>, as
  \<open>chat_with_document\<close> and the legacy routes run them.
\<close>

definition answer_operation ::
  "env \<Rightarrow> RAGPipeline \<Rightarrow> string option \<Rightarrow> state \<Rightarrow> (error + qa_result) \<times> state" where
  "answer_operation e rp inp s =
     (case qa_chain e rp s of
        (Inl err, s1) \<Rightarrow> (Inl err, s1)
      | (Inr (cm, rt), s1) \<Rightarrow> create_retrieval_qa_chain e cm rt inp s1)"

text \<open>The context block of the prompt: the non-empty chunk texts, blank-line separated.\<close>

definition context_text :: "doc list \<Rightarrow> string" where
  "context_text docs =
     join [CHR 0x0A, CHR 0x0A] (map page_content (filter (\<lambda>d. page_content d \<noteq> []) docs))"

text \<open>What the chain retrieves for a question, given the retriever it closes over.\<close>

definition retrieved :: "env \<Rightarrow> retriever option \<Rightarrow> string \<Rightarrow> state \<Rightarrow> error + doc list" where
  "retrieved e rt q s =
     (case rt of None \<Rightarrow> Inr [] | Some r \<Rightarrow> fst (get_relevant_documents e r q s))"

text \<open>The key a chat model object was constructed with.\<close>

fun model_key :: "chat_model \<Rightarrow> string option" where
  "model_key (ChatOpenAI m key) = key"
| "model_key (ChatGoogleGenerativeAI m key) = key"
| "model_key (ChatAnthropic m key) = key"
| "model_key (ChatGroq m key) = key"



text \<open>The vector the embedding backend returns for a chunk.\<close>

definition vec_of :: "env \<Rightarrow> embedding \<Rightarrow> doc \<Rightarrow> vector" where
  "vec_of e emb d = (case embed e emb (page_content d) of Inr v \<Rightarrow> v | Inl err \<Rightarrow> [])"

definition embeds_ok :: "env \<Rightarrow> embedding \<Rightarrow> doc list \<Rightarrow> bool" where
  "embeds_ok e emb ds =
     list_all (\<lambda>d. case embed e emb (page_content d) of Inr v \<Rightarrow> True | Inl err \<Rightarrow> False) ds"

text \<open>
  The PDF fallback as the specification words it, for comparison with
  \<open>load_document\<close>: an ordered list of typed attempts, each keeping the error it
  produced, and a \<open>ParseError\<close> over them once every attempt is exhausted.
\<close>

datatype load_failure = ParseError "error list"

fun failure_class :: "load_failure \<Rightarrow> string" where
  "failure_class (ParseError errs) = ''ParseError''"

definition load_pdf_typed :: "env \<Rightarrow> string \<Rightarrow> load_failure + doc list" where
  "load_pdf_typed e p =
     (case PyPDFLoader e p of
        Inr docs \<Rightarrow> Inr docs
      | Inl a \<Rightarrow>
          (case PyMuPDFLoader e p of
             Inr docs \<Rightarrow> Inr docs
           | Inl b \<Rightarrow> Inl (ParseError [a, b])))"

text \<open>The model name the local embedding fallback is constructed with.\<close>

definition hf_model :: "env \<Rightarrow> string" where
  "hf_model e =
     (case getenv e ''LEGAL_EAGLE_HF_EMBEDDING_MODEL'' of
        None \<Rightarrow> ''sentence-transformers/all-MiniLM-L6-v2''
      | Some m \<Rightarrow> m)"


section \<open>Concrete scenarios\<close>

definition demo_docs :: "doc list" where
  "demo_docs =
     [\<lparr>page_content = ''Clause one.'', metadata = [(''page'', ''0'')]\<rparr>,
      \<lparr>page_content = ''Clause two.'', metadata = [(''page'', ''1'')]\<rparr>]"

text \<open>
  A world in which the external calls succeed: any path exists, no environment variable
  is set, every client library is installed, the loaders return \<open>demo_docs\<close>, the
  splitter returns its input, the ranking query returns the first \<open>k\<close> stored chunks
  and the chat backend answers.  As with the real libraries, a chat client cannot be
  constructed without a key (none is in the environment either) and makes no call when
  it is constructed, and the store rejects a collection name of fewer than three
  characters and an empty batch.
\<close>

definition demo_env :: env where
  "demo_env =
     \<lparr>path_exists = (\<lambda>p. True), getenv = (\<lambda>v. None), importable = (\<lambda>m. True),
      PyPDFLoader = (\<lambda>p. Inr demo_docs), PyMuPDFLoader = (\<lambda>p. Inr demo_docs),
      UnstructuredWordDocumentLoader = (\<lambda>p. Inr demo_docs),
      TextLoader = (\<lambda>p. Inr demo_docs),
      embeddings_init = (\<lambda>m. None),
      chat_model_init =
        (\<lambda>cm. (if model_key cm = None \<or> model_key cm = Some []
                   then Some (BackendError ''ValidationError'') else None, [])),
      split_documents = (\<lambda>sz ov ds. Inr ds),
      chroma_open =
        (\<lambda>n. if length n < 3 then Some (ValueError ''Expected collection name'') else None),
      chroma_create =
        (\<lambda>n. if length n < 3 then Some (ValueError ''Expected collection name'') else None),
      count_error = (\<lambda>n. None),
      chroma_add =
        (\<lambda>n ps. if ps = [] then Some (ValueError ''Expected IDs to be a non-empty list'')
                else None),
      embed = (\<lambda>m t. Inr [int (length t)]),
      mmr = (\<lambda>entries kk fk q. Inr (take kk (map snd entries))),
      chat = (\<lambda>cm msgs. Inr \<lparr>content = Some ''It says so.'', str_repr = ''AIMessage''\<rparr>)\<rparr>"

text \<open>The same world with an embedding backend that fails on every call.\<close>

definition no_embed_env :: env where
  "no_embed_env = demo_env\<lparr>embed := (\<lambda>m t. Inl (BackendError ''AuthenticationError''))\<rparr>"

text \<open>The same world with a chat backend that fails on every call.\<close>

definition chat_down_env :: env where
  "chat_down_env = demo_env\<lparr>chat := (\<lambda>cm msgs. Inl (BackendError ''RateLimitError''))\<rparr>"

text \<open>
  The same world where, in turn, the uploaded file is missing, the embeddings client
  cannot be constructed, the splitter fails, the ranking query fails, and the write to
  the store fails.
\<close>

definition no_file_env :: env where
  "no_file_env = demo_env\<lparr>path_exists := (\<lambda>p. False)\<rparr>"

definition no_embeddings_env :: env where
  "no_embeddings_env =
     demo_env\<lparr>embeddings_init := (\<lambda>m. Some (BackendError ''ValidationError''))\<rparr>"

definition no_split_env :: env where
  "no_split_env = demo_env\<lparr>split_documents := (\<lambda>sz ov ds. Inl (BackendError ''TypeError''))\<rparr>"

definition query_down_env :: env where
  "query_down_env =
     demo_env\<lparr>mmr := (\<lambda>entries kk fk q. Inl (BackendError ''InternalError''))\<rparr>"

definition no_write_env :: env where
  "no_write_env = demo_env\<lparr>chroma_add := (\<lambda>n ps. Some (BackendError ''OperationalError''))\<rparr>"

text \<open>Nothing persisted, nothing called yet.\<close>

definition empty_state :: state where
  "empty_state = \<lparr>store = (\<lambda>n. []), calls = []\<rparr>"

text \<open>The collection \<open>lease\<close> already holds the two chunks of \<open>demo_docs\<close>.\<close>

definition ready_state :: state where
  "ready_state =
     \<lparr>store = (\<lambda>n. if n = ''lease'' then zip [[11], [11]] demo_docs else []), calls = []\<rparr>"

definition demo_pipeline :: RAGPipeline where
  "demo_pipeline =
     \<lparr>uploaded_file = ''lease.txt'', vector_db_path = vector_store_db,
      llm_provider = ''openai'', llm_model = ''gpt-4o-mini'',
      llm_api_key = Some ''sk-test''\<rparr>"

definition demo_model :: chat_model where
  "demo_model = ChatOpenAI ''gpt-4o-mini'' (Some ''sk-test'')"

text \<open>
  A database with one document for user 7, who has stored an OpenAI key, and one for
  user 8, who has no settings row; an environment that configures an OpenAI key; and a
  chat request that names neither provider nor model.
\<close>

definition lease_doc :: Document where
  "lease_doc =
     \<lparr>doc_id = 1, user_id = 7, filename = ''lease.txt'', original_name = ''lease.txt'',
      file_path = ''uploads/lease.txt'', file_size = 24, indexed = True\<rparr>"

definition demo_db :: database where
  "demo_db =
     \<lparr>documents_table = [lease_doc, lease_doc\<lparr>doc_id := 2, user_id := 8\<rparr>],
      settings_table = [(7, default_settings\<lparr>openai_api_key := Some ''sk-user''\<rparr>)],
      chat_table = []\<rparr>"

definition keyed_env :: env where
  "keyed_env =
     demo_env\<lparr>getenv := (\<lambda>v. if v = ''OPENAI_API_KEY'' then Some ''sk-env'' else None)\<rparr>"

definition demo_request :: chat_request where
  "demo_request = \<lparr>question = Some '' Term? '', req_provider = None, req_model_name = None\<rparr>"

text \<open>
  A world in which both PDF loaders fail, and one in which only the first does.
\<close>

definition pdf_env_a :: env where
  "pdf_env_a =
     demo_env\<lparr>PyPDFLoader := (\<lambda>p. Inl (BackendError ''PdfReadError'')),
              PyMuPDFLoader := (\<lambda>p. Inl (BackendError ''FileDataError''))\<rparr>"

definition pdf_env_c :: env where
  "pdf_env_c = demo_env\<lparr>PyPDFLoader := (\<lambda>p. Inl (BackendError ''PdfReadError''))\<rparr>"

text \<open>
  Environments for the embedding selection: an override naming no known provider, and an
  override (with surrounding blanks and capitals) next to a hosted credential.  A world
  without the Gemini client library.
\<close>

definition cohere_env :: env where
  "cohere_env =
     demo_env\<lparr>getenv :=
       (\<lambda>v. if v = ''LEGAL_EAGLE_EMBEDDINGS_PROVIDER'' then Some ''cohere'' else None)\<rparr>"

definition override_env :: env where
  "override_env =
     demo_env\<lparr>getenv :=
       (\<lambda>v. if v = ''LEGAL_EAGLE_EMBEDDINGS_PROVIDER'' then Some '' HuggingFace ''
            else if v = ''OPENAI_API_KEY'' then Some ''sk-env'' else None)\<rparr>"


text \<open>A database with no rows.\<close>

definition empty_db :: database where
  "empty_db = \<lparr>documents_table = [], settings_table = [], chat_table = []\<rparr>"






section \<open>Trimming\<close>

lemma strip_empty_iff: "strip s = [] \<longleftrightarrow> list_all isspace s"
proof
  assume "strip s = []"
  then have rest: "\<forall>x\<in>set (dropWhile isspace s). isspace x"
    by (simp add: strip_def rstrip_def lstrip_def)
  have "dropWhile isspace s = []"
  proof (rule ccontr)
    assume ne: "dropWhile isspace s \<noteq> []"
    then have "\<not> isspace (hd (dropWhile isspace s))" by (rule hd_dropWhile)
    moreover from ne have "hd (dropWhile isspace s) \<in> set (dropWhile isspace s)" by simp
    ultimately show False using rest by blast
  qed
  then show "list_all isspace s"
    by (simp add: list_all_iff)
next
  assume "list_all isspace s"
  then have "dropWhile isspace s = []"
    by (simp add: list_all_iff)
  then show "strip s = []"
    unfolding strip_def rstrip_def lstrip_def by (auto dest: set_dropWhileD)
qed

lemma strip_demo_question: "strip '' Term? '' = ''Term?''"
  by (simp add: strip_def lstrip_def rstrip_def isspace_def)

section \<open>The conversation chain\<close>

text \<open>
  Claim C3.  When the question is empty or consists of whitespace only (so that nothing
  is left after trimming; a missing question counts as empty), the chain returns the
  empty answer with the empty context and leaves the state as it was: neither the
  retriever nor the chat model is called, whatever retriever and model it was built with.
\<close>

theorem empty_question_short_circuit:
  "list_all isspace (or_str inp []) \<Longrightarrow>
   create_retrieval_qa_chain e cm rt inp s = (Inr \<lparr>answer = [], context_docs = []\<rparr>, s)"
  by (simp add: create_retrieval_qa_chain_def strip_empty_iff)

theorem empty_question_short_circuit_witness:
  "list_all isspace (or_str (Some [CHR '' '', CHR 0x09, CHR 0x0A]) []) \<and>
   create_retrieval_qa_chain demo_env demo_model (Some (as_retriever ''lease''))
       (Some [CHR '' '', CHR 0x09, CHR 0x0A]) ready_state
     = (Inr \<lparr>answer = [], context_docs = []\<rparr>, ready_state)"
  using empty_question_short_circuit [of "Some [CHR '' '', CHR 0x09, CHR 0x0A]" demo_env
      demo_model "Some (as_retriever ''lease'')" ready_state]
  by (simp add: or_str_def isspace_def)

text \<open>
  Claim C10.  With no retriever (\<open>None\<close>) and a question that is not empty after
  trimming, the chain makes exactly one call, to the chat model, and the messages of that
  call are the system prompt with nothing after \<open>Context:\<close> (the empty context block)
  and the trimmed question as the human message.  When the model responds, the chain
  returns the text of the response (its content, or \<open>str(result)\<close> when the content is
  missing or empty) with the empty context list.
\<close>

theorem null_retriever_still_invokes_model:
  assumes "strip (or_str inp []) \<noteq> []"
    and "chat e cm
           [SystemMessage
              (''You are a legal expert and contract analyzer.'' @ [CHR 0x0A] @
               ''Use the following context to answer the user's question thoroughly and accurately.''
                 @ [CHR 0x0A, CHR 0x0A] @
               ''If you cannot find the answer in the context, say '' @ [CHR 0x22] @
               ''I don't know based on the provided document.'' @ [CHR 0x22]
                 @ [CHR 0x0A, CHR 0x0A] @
               ''Context:'' @ [CHR 0x0A]),
            HumanMessage (strip (or_str inp []))] = Inr r"
  shows "create_retrieval_qa_chain e cm None inp s =
           (Inr \<lparr>answer =
                   (case content r of
                      None \<Rightarrow> str_repr r
                    | Some c \<Rightarrow> if c = [] then str_repr r else c),
                 context_docs = []\<rparr>,
            s\<lparr>calls := calls s @
               [EvChat cm
                  [SystemMessage
                     (''You are a legal expert and contract analyzer.'' @ [CHR 0x0A] @
                      ''Use the following context to answer the user's question thoroughly and accurately.''
                        @ [CHR 0x0A, CHR 0x0A] @
                      ''If you cannot find the answer in the context, say '' @ [CHR 0x22] @
                      ''I don't know based on the provided document.'' @ [CHR 0x22]
                        @ [CHR 0x0A, CHR 0x0A] @
                      ''Context:'' @ [CHR 0x0A]),
                   HumanMessage (strip (or_str inp []))]]\<rparr>)"
proof -
  have m: "format_messages [] (strip (or_str inp [])) =
           [SystemMessage
              (''You are a legal expert and contract analyzer.'' @ [CHR 0x0A] @
               ''Use the following context to answer the user's question thoroughly and accurately.''
                 @ [CHR 0x0A, CHR 0x0A] @
               ''If you cannot find the answer in the context, say '' @ [CHR 0x22] @
               ''I don't know based on the provided document.'' @ [CHR 0x22]
                 @ [CHR 0x0A, CHR 0x0A] @
               ''Context:'' @ [CHR 0x0A]),
            HumanMessage (strip (or_str inp []))]"
    by (simp add: format_messages_def system_prompt_def)
  have "create_retrieval_qa_chain e cm None inp s =
          (case chat e cm (format_messages [] (strip (or_str inp []))) of
             Inl err \<Rightarrow> (Inl err, emit (EvChat cm (format_messages [] (strip (or_str inp [])))) s)
           | Inr res \<Rightarrow>
               (Inr \<lparr>answer = response_text res, context_docs = []\<rparr>,
                emit (EvChat cm (format_messages [] (strip (or_str inp [])))) s))"
    using assms(1)
    by (simp add: create_retrieval_qa_chain_def chat_invoke_def Let_def split: sum.splits)
  then show ?thesis
    using assms(2) unfolding m
    by (simp add: emit_def response_text_def or_str_def)
qed

theorem null_retriever_still_invokes_model_witness:
  "strip (or_str (Some '' Term? '') []) = ''Term?'' \<and>
   create_retrieval_qa_chain demo_env demo_model None (Some '' Term? '') empty_state =
     (Inr \<lparr>answer = ''It says so.'', context_docs = []\<rparr>,
      empty_state\<lparr>calls := calls empty_state @
        [EvChat demo_model
           [SystemMessage
              (''You are a legal expert and contract analyzer.'' @ [CHR 0x0A] @
               ''Use the following context to answer the user's question thoroughly and accurately.''
                 @ [CHR 0x0A, CHR 0x0A] @
               ''If you cannot find the answer in the context, say '' @ [CHR 0x22] @
               ''I don't know based on the provided document.'' @ [CHR 0x22]
                 @ [CHR 0x0A, CHR 0x0A] @
               ''Context:'' @ [CHR 0x0A]),
            HumanMessage ''Term?'']]\<rparr>)"
proof -
  have q: "strip (or_str (Some '' Term? '') []) = ''Term?''"
    by (simp add: or_str_def strip_demo_question)
  have ne: "strip (or_str (Some '' Term? '') []) \<noteq> []" by (simp add: q)
  have c: "chat demo_env demo_model
           [SystemMessage
              (''You are a legal expert and contract analyzer.'' @ [CHR 0x0A] @
               ''Use the following context to answer the user's question thoroughly and accurately.''
                 @ [CHR 0x0A, CHR 0x0A] @
               ''If you cannot find the answer in the context, say '' @ [CHR 0x22] @
               ''I don't know based on the provided document.'' @ [CHR 0x22]
                 @ [CHR 0x0A, CHR 0x0A] @
               ''Context:'' @ [CHR 0x0A]),
            HumanMessage (strip (or_str (Some '' Term? '') []))]
          = Inr \<lparr>content = Some ''It says so.'', str_repr = ''AIMessage''\<rparr>"
    by (simp add: demo_env_def)
  show ?thesis
    using null_retriever_still_invokes_model [OF ne c, of empty_state] q
    by simp
qed

text \<open>With no retriever, the only error the chain can return is the chat model's own.\<close>

lemma null_retriever_failure_is_model_failure:
  assumes "strip (or_str inp []) \<noteq> []"
    and "fst (create_retrieval_qa_chain e cm None inp s) = Inl err"
  shows "chat e cm (format_messages [] (strip (or_str inp []))) = Inl err"
  using assms
  by (auto simp: create_retrieval_qa_chain_def chat_invoke_def Let_def split: sum.splits)

section \<open>The vector collection\<close>

lemma embed_all_ok:
  "embeds_ok e emb ds \<Longrightarrow>
   embed_all e emb ds s =
     (Inr (map (\<lambda>d. (vec_of e emb d, d)) ds),
      s\<lparr>calls := calls s @ map (\<lambda>d. EvEmbed (page_content d)) ds\<rparr>)"
proof (induction ds arbitrary: s)
  case Nil
  then show ?case by simp
next
  case (Cons d ds)
  from Cons.prems obtain v where v: "embed e emb (page_content d) = Inr v"
    by (auto simp: embeds_ok_def split: sum.splits)
  from Cons.prems have rest: "embeds_ok e emb ds" by (simp add: embeds_ok_def)
  show ?case
    using v Cons.IH [OF rest, of "emit (EvEmbed (page_content d)) s"]
    by (simp add: vec_of_def emit_def)
qed

lemma embed_all_fail:
  "\<not> embeds_ok e emb ds \<Longrightarrow> \<exists>err. fst (embed_all e emb ds s) = Inl err"
proof (induction ds arbitrary: s)
  case Nil
  then show ?case by (simp add: embeds_ok_def)
next
  case (Cons d ds)
  show ?case
  proof (cases "embed e emb (page_content d)")
    case (Inl err)
    then show ?thesis by simp
  next
    case (Inr v)
    with Cons.prems have "\<not> embeds_ok e emb ds" by (simp add: embeds_ok_def)
    from Cons.IH [OF this, of "emit (EvEmbed (page_content d)) s"]
    obtain err where "fst (embed_all e emb ds (emit (EvEmbed (page_content d)) s)) = Inl err" ..
    with Inr show ?thesis by (auto split: prod.splits sum.splits)
  qed
qed

text \<open>Embedding writes nothing to the store.\<close>

lemma embed_all_store: "store (snd (embed_all e emb ds s)) = store s"
proof (induction ds arbitrary: s)
  case Nil
  then show ?case by simp
next
  case (Cons d ds)
  show ?case
    using Cons.IH [of "emit (EvEmbed (page_content d)) s"]
    by (auto simp: emit_def split: sum.splits prod.splits)
qed

lemma from_documents_ok:
  assumes "chroma_create e name = None" and "embeds_ok e emb splits"
    and "chroma_add e name (map (\<lambda>d. (vec_of e emb d, d)) splits) = None"
  shows "from_documents e emb name splits s =
           (Inr (),
            s\<lparr>calls := calls s @ [EvOpen name]
                        @ map (\<lambda>d. EvEmbed (page_content d)) splits
                        @ [EvPersist name (length splits)],
              store := (store s)(name :=
                         store s name @ map (\<lambda>d. (vec_of e emb d, d)) splits)\<rparr>)"
  using assms by (simp add: from_documents_def Let_def emit_def embed_all_ok)

lemma from_documents_create_fails:
  "chroma_create e name = Some err \<Longrightarrow>
   from_documents e emb name splits s = (Inl err, emit (EvOpen name) s)"
  by (simp add: from_documents_def Let_def)

lemma from_documents_embed_fails:
  assumes "\<not> embeds_ok e emb splits"
  shows "\<exists>err. fst (from_documents e emb name splits s) = Inl err"
proof (cases "chroma_create e name")
  case (Some err)
  then show ?thesis by (simp add: from_documents_create_fails)
next
  case None
  from embed_all_fail [OF assms, of "emit (EvOpen name) s"]
  obtain err where "fst (embed_all e emb splits (emit (EvOpen name) s)) = Inl err" ..
  with None show ?thesis
    by (auto simp: from_documents_def Let_def split: prod.splits sum.splits)
qed

lemma from_documents_write_fails:
  assumes "chroma_create e name = None" and "embeds_ok e emb splits"
    and "chroma_add e name (map (\<lambda>d. (vec_of e emb d, d)) splits) = Some err"
  shows "fst (from_documents e emb name splits s) = Inl err"
  using assms by (simp add: from_documents_def Let_def emit_def embed_all_ok)

text \<open>A call of \<open>Chroma.from_documents\<close> that raises has stored nothing.\<close>

lemma from_documents_failure_store:
  assumes "fst (from_documents e emb name splits s) = Inl err"
  shows "store (snd (from_documents e emb name splits s)) = store s"
proof (cases "chroma_create e name")
  case (Some err')
  then show ?thesis by (simp add: from_documents_create_fails emit_def)
next
  case None
  have st: "store (snd (embed_all e emb splits (emit (EvOpen name) s))) = store s"
    by (simp add: embed_all_store emit_def)
  obtain res s' where es: "embed_all e emb splits (emit (EvOpen name) s) = (res, s')"
    by (cases "embed_all e emb splits (emit (EvOpen name) s)")
  from st es have s': "store s' = store s" by simp
  show ?thesis
    using assms None es s'
    by (auto simp: from_documents_def Let_def emit_def split: sum.splits option.splits)
qed

lemma get_retriever_ready:
  assumes "split_documents e 1200 150 (documents r) = Inr splits"
    and "chroma_open e (collection_name r) = None"
    and "count_error e (collection_name r) = None"
    and "store s (collection_name r) \<noteq> []"
  shows "get_retriever e r s =
           (Some (as_retriever (collection_name r)),
            s\<lparr>calls := calls s @ [EvSplit 1200 150 (documents r), EvOpen (collection_name r)]\<rparr>)"
  using assms by (simp add: get_retriever_def Let_def emit_def)

text \<open>On a collection that is not ready, the result is that of \<open>Chroma.from_documents\<close>.\<close>

lemma get_retriever_stale:
  assumes "split_documents e 1200 150 (documents r) = Inr splits"
    and "chroma_open e (collection_name r) \<noteq> None \<or> count_error e (collection_name r) \<noteq> None
           \<or> store s (collection_name r) = []"
  shows "get_retriever e r s =
           (case from_documents e (embedding r) (collection_name r) splits
                   (s\<lparr>calls := calls s
                        @ [EvSplit 1200 150 (documents r), EvOpen (collection_name r)]\<rparr>) of
              (Inl err, s3) \<Rightarrow> (None, s3)
            | (Inr u, s3) \<Rightarrow> (Some (as_retriever (collection_name r)), s3))"
  using assms by (auto simp: get_retriever_def Let_def emit_def)

lemma get_retriever_build:
  assumes "split_documents e 1200 150 (documents r) = Inr splits"
    and "chroma_open e (collection_name r) \<noteq> None \<or> count_error e (collection_name r) \<noteq> None
           \<or> store s (collection_name r) = []"
    and "chroma_create e (collection_name r) = None"
    and "embeds_ok e (embedding r) splits"
    and "chroma_add e (collection_name r)
           (map (\<lambda>d. (vec_of e (embedding r) d, d)) splits) = None"
  shows "get_retriever e r s =
           (Some (as_retriever (collection_name r)),
            s\<lparr>calls := calls s
                 @ [EvSplit 1200 150 (documents r), EvOpen (collection_name r),
                    EvOpen (collection_name r)]
                 @ map (\<lambda>d. EvEmbed (page_content d)) splits
                 @ [EvPersist (collection_name r) (length splits)],
              store := (store s)(collection_name r :=
                         store s (collection_name r)
                           @ map (\<lambda>d. (vec_of e (embedding r) d, d)) splits)\<rparr>)"
  unfolding get_retriever_stale [OF assms(1,2)] from_documents_ok [OF assms(3,4,5)]
  by simp

lemma get_retriever_build_fails:
  assumes "split_documents e 1200 150 (documents r) = Inr splits"
    and "chroma_open e (collection_name r) \<noteq> None \<or> count_error e (collection_name r) \<noteq> None
           \<or> store s (collection_name r) = []"
    and "chroma_create e (collection_name r) \<noteq> None
           \<or> \<not> embeds_ok e (embedding r) splits
           \<or> chroma_add e (collection_name r)
                (map (\<lambda>d. (vec_of e (embedding r) d, d)) splits) \<noteq> None"
  shows "fst (get_retriever e r s) = None"
    and "store (snd (get_retriever e r s)) = store s"
proof -
  let ?s2 = "s\<lparr>calls := calls s
               @ [EvSplit 1200 150 (documents r), EvOpen (collection_name r)]\<rparr>"
  let ?f = "from_documents e (embedding r) (collection_name r) splits ?s2"
  have "\<exists>err. fst ?f = Inl err"
  proof (cases "chroma_create e (collection_name r)")
    case (Some err)
    then show ?thesis by (simp add: from_documents_create_fails)
  next
    case None
    show ?thesis
    proof (cases "embeds_ok e (embedding r) splits")
      case False
      then show ?thesis by (rule from_documents_embed_fails)
    next
      case True
      with None assms(3) obtain err where
        "chroma_add e (collection_name r)
           (map (\<lambda>d. (vec_of e (embedding r) d, d)) splits) = Some err"
        by auto
      from from_documents_write_fails [OF None True this]
      show ?thesis by blast
    qed
  qed
  then obtain err where f: "fst ?f = Inl err" ..
  from from_documents_failure_store [OF f] have st: "store (snd ?f) = store s" by simp
  obtain res s3 where eq: "?f = (res, s3)" by (cases ?f)
  with f st have res: "res = Inl err" and s3: "store s3 = store s" by simp_all
  show "fst (get_retriever e r s) = None"
    unfolding get_retriever_stale [OF assms(1,2)] eq res by simp
  show "store (snd (get_retriever e r s)) = store s"
    unfolding get_retriever_stale [OF assms(1,2)] eq res using s3 by simp
qed

lemma get_retriever_split_fails:
  "split_documents e 1200 150 (documents r) = Inl err \<Longrightarrow>
   get_retriever e r s = (None, emit (EvSplit 1200 150 (documents r)) s)"
  by (simp add: get_retriever_def Let_def)

text \<open>
  Claim C2, as the code has it.  \<open>get_retriever\<close> splits the documents on every call,
  before it looks at the collection, and then opens the persisted collection.

  \<^item> When the collection opens, its count does not raise and it holds at least one
    entry, it is reused as it is: no embedding call, no write.
  \<^item> Otherwise \<open>Chroma.from_documents\<close> is called.  When its own open succeeds, every
    embedding call succeeds and the store accepts the write, every chunk has been
    embedded, in order, and all (vector, chunk) pairs are appended to the collection.
  \<^item> When instead one of these three fails, \<open>get_retriever\<close> returns \<open>None\<close> and the
    store is as it was.
  \<^item> After a successful build of at least one chunk, the next call against a collection
    that opens and counts finds it ready: it splits and opens, and neither embeds nor
    writes.
\<close>

theorem open_or_build_protocol:
  assumes split: "split_documents e 1200 150 (documents r) = Inr splits"
  shows
   "(chroma_open e (collection_name r) = None \<and> count_error e (collection_name r) = None
       \<and> store s (collection_name r) \<noteq> [] \<longrightarrow>
       get_retriever e r s =
         (Some (as_retriever (collection_name r)),
          s\<lparr>calls := calls s @ [EvSplit 1200 150 (documents r), EvOpen (collection_name r)]\<rparr>))
  \<and> ((chroma_open e (collection_name r) \<noteq> None \<or> count_error e (collection_name r) \<noteq> None
        \<or> store s (collection_name r) = [])
       \<and> chroma_create e (collection_name r) = None
       \<and> embeds_ok e (embedding r) splits
       \<and> chroma_add e (collection_name r)
            (map (\<lambda>d. (vec_of e (embedding r) d, d)) splits) = None \<longrightarrow>
       get_retriever e r s =
         (Some (as_retriever (collection_name r)),
          s\<lparr>calls := calls s
               @ [EvSplit 1200 150 (documents r), EvOpen (collection_name r),
                  EvOpen (collection_name r)]
               @ map (\<lambda>d. EvEmbed (page_content d)) splits
               @ [EvPersist (collection_name r) (length splits)],
            store := (store s)(collection_name r :=
                       store s (collection_name r)
                         @ map (\<lambda>d. (vec_of e (embedding r) d, d)) splits)\<rparr>))
  \<and> ((chroma_open e (collection_name r) \<noteq> None \<or> count_error e (collection_name r) \<noteq> None
        \<or> store s (collection_name r) = [])
       \<and> (chroma_create e (collection_name r) \<noteq> None
            \<or> \<not> embeds_ok e (embedding r) splits
            \<or> chroma_add e (collection_name r)
                 (map (\<lambda>d. (vec_of e (embedding r) d, d)) splits) \<noteq> None) \<longrightarrow>
       fst (get_retriever e r s) = None
       \<and> store (snd (get_retriever e r s)) = store s)
  \<and> (chroma_open e (collection_name r) = None \<and> count_error e (collection_name r) = None
       \<and> chroma_create e (collection_name r) = None \<and> splits \<noteq> []
       \<and> embeds_ok e (embedding r) splits
       \<and> chroma_add e (collection_name r)
            (map (\<lambda>d. (vec_of e (embedding r) d, d)) splits) = None \<longrightarrow>
       calls (snd (get_retriever e r (snd (get_retriever e r s)))) =
         calls (snd (get_retriever e r s))
           @ [EvSplit 1200 150 (documents r), EvOpen (collection_name r)]
       \<and> store (snd (get_retriever e r (snd (get_retriever e r s)))) =
           store (snd (get_retriever e r s)))"
proof (intro conjI impI)
  assume "chroma_open e (collection_name r) = None \<and> count_error e (collection_name r) = None
       \<and> store s (collection_name r) \<noteq> []"
  then show "get_retriever e r s =
         (Some (as_retriever (collection_name r)),
          s\<lparr>calls := calls s @ [EvSplit 1200 150 (documents r), EvOpen (collection_name r)]\<rparr>)"
    using get_retriever_ready [OF split] by simp
next
  assume "(chroma_open e (collection_name r) \<noteq> None \<or> count_error e (collection_name r) \<noteq> None
        \<or> store s (collection_name r) = [])
       \<and> chroma_create e (collection_name r) = None
       \<and> embeds_ok e (embedding r) splits
       \<and> chroma_add e (collection_name r)
            (map (\<lambda>d. (vec_of e (embedding r) d, d)) splits) = None"
  then show "get_retriever e r s =
         (Some (as_retriever (collection_name r)),
          s\<lparr>calls := calls s
               @ [EvSplit 1200 150 (documents r), EvOpen (collection_name r),
                  EvOpen (collection_name r)]
               @ map (\<lambda>d. EvEmbed (page_content d)) splits
               @ [EvPersist (collection_name r) (length splits)],
            store := (store s)(collection_name r :=
                       store s (collection_name r)
                         @ map (\<lambda>d. (vec_of e (embedding r) d, d)) splits)\<rparr>)"
    using get_retriever_build [OF split] by blast
next
  assume a: "(chroma_open e (collection_name r) \<noteq> None \<or> count_error e (collection_name r) \<noteq> None
        \<or> store s (collection_name r) = [])
       \<and> (chroma_create e (collection_name r) \<noteq> None
            \<or> \<not> embeds_ok e (embedding r) splits
            \<or> chroma_add e (collection_name r)
                 (map (\<lambda>d. (vec_of e (embedding r) d, d)) splits) \<noteq> None)"
  from a have stale: "chroma_open e (collection_name r) \<noteq> None
      \<or> count_error e (collection_name r) \<noteq> None \<or> store s (collection_name r) = []"
    by simp
  from a have bad: "chroma_create e (collection_name r) \<noteq> None
            \<or> \<not> embeds_ok e (embedding r) splits
            \<or> chroma_add e (collection_name r)
                 (map (\<lambda>d. (vec_of e (embedding r) d, d)) splits) \<noteq> None"
    by simp
  show "fst (get_retriever e r s) = None"
    by (rule get_retriever_build_fails(1) [OF split stale bad])
  show "store (snd (get_retriever e r s)) = store s"
    by (rule get_retriever_build_fails(2) [OF split stale bad])
next
  assume a: "chroma_open e (collection_name r) = None \<and> count_error e (collection_name r) = None
       \<and> chroma_create e (collection_name r) = None \<and> splits \<noteq> []
       \<and> embeds_ok e (embedding r) splits
       \<and> chroma_add e (collection_name r)
            (map (\<lambda>d. (vec_of e (embedding r) d, d)) splits) = None"
  from a have op: "chroma_open e (collection_name r) = None"
    and cn: "count_error e (collection_name r) = None"
    and cr: "chroma_create e (collection_name r) = None" and ne: "splits \<noteq> []"
    and ok: "embeds_ok e (embedding r) splits"
    and ad: "chroma_add e (collection_name r)
            (map (\<lambda>d. (vec_of e (embedding r) d, d)) splits) = None"
    by simp_all
  have full: "store (snd (get_retriever e r s)) (collection_name r) \<noteq> []"
  proof (cases "store s (collection_name r) = []")
    case True
    then have "chroma_open e (collection_name r) \<noteq> None
      \<or> count_error e (collection_name r) \<noteq> None \<or> store s (collection_name r) = []"
      by simp
    from get_retriever_build [OF split this cr ok ad] ne show ?thesis by simp
  next
    case False
    from get_retriever_ready [OF split op cn False] False show ?thesis by simp
  qed
  note second = get_retriever_ready [OF split op cn full]
  show "calls (snd (get_retriever e r (snd (get_retriever e r s)))) =
         calls (snd (get_retriever e r s))
           @ [EvSplit 1200 150 (documents r), EvOpen (collection_name r)]"
    by (simp add: second)
  show "store (snd (get_retriever e r (snd (get_retriever e r s)))) =
           store (snd (get_retriever e r s))"
    by (simp add: second)
qed

theorem open_or_build_protocol_witness:
  "split_documents demo_env 1200 150
      (documents (Retriever_init demo_docs OpenAIEmbeddings vector_store_db (Some ''lease'')))
     = Inr demo_docs \<and>
   fst (get_retriever demo_env
          (Retriever_init demo_docs OpenAIEmbeddings vector_store_db (Some ''lease''))
          empty_state) = Some (as_retriever ''lease'') \<and>
   calls (snd (get_retriever demo_env
                 (Retriever_init demo_docs OpenAIEmbeddings vector_store_db (Some ''lease''))
                 empty_state))
     = [EvSplit 1200 150 demo_docs, EvOpen ''lease'', EvOpen ''lease'',
        EvEmbed ''Clause one.'', EvEmbed ''Clause two.'', EvPersist ''lease'' 2] \<and>
   map snd (store (snd (get_retriever demo_env
                 (Retriever_init demo_docs OpenAIEmbeddings vector_store_db (Some ''lease''))
                 empty_state)) ''lease'') = demo_docs \<and>
   calls (snd (get_retriever demo_env
                 (Retriever_init demo_docs OpenAIEmbeddings vector_store_db (Some ''lease''))
                 (snd (get_retriever demo_env
                         (Retriever_init demo_docs OpenAIEmbeddings vector_store_db
                            (Some ''lease''))
                         empty_state))))
     = [EvSplit 1200 150 demo_docs, EvOpen ''lease'', EvOpen ''lease'',
        EvEmbed ''Clause one.'', EvEmbed ''Clause two.'', EvPersist ''lease'' 2,
        EvSplit 1200 150 demo_docs, EvOpen ''lease''] \<and>
   get_retriever demo_env
     (Retriever_init demo_docs OpenAIEmbeddings vector_store_db (Some ''lease'')) ready_state
     = (Some (as_retriever ''lease''),
        ready_state\<lparr>calls := calls ready_state
                       @ [EvSplit 1200 150 demo_docs, EvOpen ''lease'']\<rparr>) \<and>
   chroma_create demo_env ''ab'' = Some (ValueError ''Expected collection name'') \<and>
   chroma_add demo_env ''lease'' [] = Some (ValueError ''Expected IDs to be a non-empty list'') \<and>
   fst (get_retriever demo_env
          (Retriever_init demo_docs OpenAIEmbeddings vector_store_db (Some ''ab''))
          empty_state) = None \<and>
   store (snd (get_retriever demo_env
          (Retriever_init demo_docs OpenAIEmbeddings vector_store_db (Some ''ab''))
          empty_state)) = store empty_state \<and>
   fst (get_retriever demo_env
          (Retriever_init [] OpenAIEmbeddings vector_store_db (Some ''lease''))
          empty_state) = None \<and>
   store (snd (get_retriever demo_env
          (Retriever_init [] OpenAIEmbeddings vector_store_db (Some ''lease''))
          empty_state)) = store empty_state \<and>
   fst (get_retriever no_embed_env
          (Retriever_init demo_docs OpenAIEmbeddings vector_store_db (Some ''lease''))
          empty_state) = None \<and>
   store (snd (get_retriever no_embed_env
          (Retriever_init demo_docs OpenAIEmbeddings vector_store_db (Some ''lease''))
          empty_state)) = store empty_state \<and>
   fst (get_retriever no_write_env
          (Retriever_init demo_docs OpenAIEmbeddings vector_store_db (Some ''lease''))
          empty_state) = None \<and>
   store (snd (get_retriever no_write_env
          (Retriever_init demo_docs OpenAIEmbeddings vector_store_db (Some ''lease''))
          empty_state)) = store empty_state"
proof -
  let ?r = "Retriever_init demo_docs OpenAIEmbeddings vector_store_db (Some ''lease'')"
  let ?rab = "Retriever_init demo_docs OpenAIEmbeddings vector_store_db (Some ''ab'')"
  let ?rnil = "Retriever_init [] OpenAIEmbeddings vector_store_db (Some ''lease'')"
  have r: "documents ?r = demo_docs" "collection_name ?r = ''lease''"
    "embedding ?r = OpenAIEmbeddings"
    by (simp_all add: Retriever_init_def or_str_def)
  have rab: "documents ?rab = demo_docs" "collection_name ?rab = ''ab''"
    "embedding ?rab = OpenAIEmbeddings"
    by (simp_all add: Retriever_init_def or_str_def)
  have rnil: "documents ?rnil = []" "collection_name ?rnil = ''lease''"
    "embedding ?rnil = OpenAIEmbeddings"
    by (simp_all add: Retriever_init_def or_str_def)
  have sp: "split_documents demo_env 1200 150 (documents ?r) = Inr demo_docs"
    by (simp add: demo_env_def r)
  have spab: "split_documents demo_env 1200 150 (documents ?rab) = Inr demo_docs"
    by (simp add: demo_env_def rab)
  have spnil: "split_documents demo_env 1200 150 (documents ?rnil) = Inr []"
    by (simp add: demo_env_def rnil)
  have spe: "split_documents no_embed_env 1200 150 (documents ?r) = Inr demo_docs"
    by (simp add: no_embed_env_def demo_env_def r)
  have spw: "split_documents no_write_env 1200 150 (documents ?r) = Inr demo_docs"
    by (simp add: no_write_env_def demo_env_def r)
  have op: "chroma_open demo_env ''lease'' = None" by (simp add: demo_env_def)
  have cn: "count_error demo_env ''lease'' = None" by (simp add: demo_env_def)
  have cr: "chroma_create demo_env ''lease'' = None" by (simp add: demo_env_def)
  have crab: "chroma_create demo_env ''ab'' = Some (ValueError ''Expected collection name'')"
    by (simp add: demo_env_def)
  have ad: "chroma_add demo_env ''lease''
              (map (\<lambda>d. (vec_of demo_env OpenAIEmbeddings d, d)) demo_docs) = None"
    by (simp add: demo_env_def demo_docs_def)
  have adnil: "chroma_add demo_env ''lease''
              (map (\<lambda>d. (vec_of demo_env OpenAIEmbeddings d, d)) [])
               = Some (ValueError ''Expected IDs to be a non-empty list'')"
    by (simp add: demo_env_def)
  have adw: "chroma_add no_write_env ''lease''
              (map (\<lambda>d. (vec_of no_write_env OpenAIEmbeddings d, d)) demo_docs)
               = Some (BackendError ''OperationalError'')"
    by (simp add: no_write_env_def)
  have st: "store empty_state ''lease'' = []" "store empty_state ''ab'' = []"
    by (simp_all add: empty_state_def)
  have rd: "store ready_state ''lease'' \<noteq> []" by (simp add: ready_state_def demo_docs_def)
  have ok: "embeds_ok demo_env OpenAIEmbeddings demo_docs"
    by (simp add: embeds_ok_def demo_env_def demo_docs_def)
  have nok: "\<not> embeds_ok no_embed_env OpenAIEmbeddings demo_docs"
    by (simp add: embeds_ok_def no_embed_env_def demo_docs_def)
  have ne: "demo_docs \<noteq> []" by (simp add: demo_docs_def)
  note p = open_or_build_protocol [OF sp, of empty_state]
  from p op cn cr st ok ne ad have first: "get_retriever demo_env ?r empty_state =
         (Some (as_retriever ''lease''),
          empty_state\<lparr>calls := calls empty_state
               @ [EvSplit 1200 150 demo_docs, EvOpen ''lease'', EvOpen ''lease'']
               @ map (\<lambda>d. EvEmbed (page_content d)) demo_docs
               @ [EvPersist ''lease'' (length demo_docs)],
            store := (store empty_state)(''lease'' :=
                       store empty_state ''lease''
                         @ map (\<lambda>d. (vec_of demo_env OpenAIEmbeddings d, d)) demo_docs)\<rparr>)"
    by (simp add: r)
  from p op cn cr ok ne ad have second:
    "calls (snd (get_retriever demo_env ?r (snd (get_retriever demo_env ?r empty_state)))) =
       calls (snd (get_retriever demo_env ?r empty_state))
         @ [EvSplit 1200 150 demo_docs, EvOpen ''lease'']"
    by (simp add: r)
  have c0: "fst (get_retriever demo_env ?r empty_state) = Some (as_retriever ''lease'')"
    unfolding first by simp
  have c1: "calls (snd (get_retriever demo_env ?r empty_state))
     = [EvSplit 1200 150 demo_docs, EvOpen ''lease'', EvOpen ''lease'',
        EvEmbed ''Clause one.'', EvEmbed ''Clause two.'', EvPersist ''lease'' 2]"
    unfolding first by (simp add: empty_state_def demo_docs_def)
  have c2: "map snd (store (snd (get_retriever demo_env ?r empty_state)) ''lease'') = demo_docs"
    unfolding first by (simp add: empty_state_def comp_def)
  from open_or_build_protocol [OF sp, of ready_state] op cn rd
  have c3: "get_retriever demo_env ?r ready_state
     = (Some (as_retriever ''lease''),
        ready_state\<lparr>calls := calls ready_state
                       @ [EvSplit 1200 150 demo_docs, EvOpen ''lease'']\<rparr>)"
    by (simp add: r)
  from open_or_build_protocol [OF spab, of empty_state] crab st
  have c4: "fst (get_retriever demo_env ?rab empty_state) = None
            \<and> store (snd (get_retriever demo_env ?rab empty_state)) = store empty_state"
    by (simp add: rab)
  from open_or_build_protocol [OF spnil, of empty_state] st adnil
  have c5: "fst (get_retriever demo_env ?rnil empty_state) = None
            \<and> store (snd (get_retriever demo_env ?rnil empty_state)) = store empty_state"
    by (simp add: rnil)
  from open_or_build_protocol [OF spe, of empty_state] st nok
  have c6: "fst (get_retriever no_embed_env ?r empty_state) = None
            \<and> store (snd (get_retriever no_embed_env ?r empty_state)) = store empty_state"
    by (simp add: r)
  from open_or_build_protocol [OF spw, of empty_state] st adw
  have c7: "fst (get_retriever no_write_env ?r empty_state) = None
            \<and> store (snd (get_retriever no_write_env ?r empty_state)) = store empty_state"
    by (simp add: r)
  have adn: "chroma_add demo_env ''lease'' []
               = Some (ValueError ''Expected IDs to be a non-empty list'')"
    by (simp add: demo_env_def)
  show ?thesis
    using sp c0 c1 c2 second c3 crab adn c4 c5 c6 c7 by simp
qed

text \<open>
  The claim as stated fails: on a collection that is ready the chunking step is not
  skipped, the splitter is the first call made.
\<close>

theorem ready_collection_is_rechunked:
  "chroma_open demo_env ''lease'' = None \<and> count_error demo_env ''lease'' = None \<and>
   store ready_state ''lease'' \<noteq> [] \<and>
   calls (snd (get_retriever demo_env
                 (Retriever_init demo_docs OpenAIEmbeddings vector_store_db (Some ''lease''))
                 ready_state))
     = [EvSplit 1200 150 demo_docs, EvOpen ''lease'']"
  by code_simp

section \<open>Failures of the Answer operation\<close>

lemma chain_retrieval_failure:
  "strip (or_str inp []) \<noteq> [] \<Longrightarrow> retrieved e rt (strip (or_str inp [])) s = Inl err
   \<Longrightarrow> fst (create_retrieval_qa_chain e cm rt inp s) = Inl err"
  by (cases rt)
     (auto simp: create_retrieval_qa_chain_def retrieved_def Let_def get_relevant_documents_def)

lemma chain_chat_failure:
  "strip (or_str inp []) \<noteq> [] \<Longrightarrow> retrieved e rt (strip (or_str inp [])) s = Inr docs
   \<Longrightarrow> chat e cm (format_messages (context_text docs) (strip (or_str inp []))) = Inl err
   \<Longrightarrow> fst (create_retrieval_qa_chain e cm rt inp s) = Inl err"
  by (cases rt)
     (auto simp: create_retrieval_qa_chain_def retrieved_def Let_def get_relevant_documents_def
        chat_invoke_def context_text_def)

lemma chain_success:
  "strip (or_str inp []) \<noteq> [] \<Longrightarrow> retrieved e rt (strip (or_str inp [])) s = Inr docs
   \<Longrightarrow> chat e cm (format_messages (context_text docs) (strip (or_str inp []))) = Inr res
   \<Longrightarrow> fst (create_retrieval_qa_chain e cm rt inp s)
         = Inr \<lparr>answer = response_text res, context_docs = docs\<rparr>"
  by (cases rt)
     (auto simp: create_retrieval_qa_chain_def retrieved_def Let_def get_relevant_documents_def
        chat_invoke_def context_text_def)

lemma chain_null_retriever:
  assumes "strip (or_str inp []) \<noteq> []"
    and "chat e cm (format_messages [] (strip (or_str inp []))) = Inr res"
  shows "fst (create_retrieval_qa_chain e cm None inp s)
           = Inr \<lparr>answer = response_text res, context_docs = []\<rparr>"
proof -
  have "retrieved e None (strip (or_str inp [])) s = Inr []" by (simp add: retrieved_def)
  moreover have "context_text [] = []" by (simp add: context_text_def)
  ultimately show ?thesis
    using assms chain_success [where inp = inp and e = e and rt = None and s = s and docs = "[]"
        and cm = cm and res = res] by simp
qed

lemma qa_chain_model_failure:
  "initialize_chat_model e (ChatModel_init (llm_provider rp) (llm_model rp) (llm_api_key rp)) s
     = (Inl err, s0) \<Longrightarrow> qa_chain e rp s = (Inl err, s0)"
  by (simp add: qa_chain_def)

lemma qa_chain_load_failure:
  "initialize_chat_model e (ChatModel_init (llm_provider rp) (llm_model rp) (llm_api_key rp)) s
     = (Inr cm, s0) \<Longrightarrow>
   load_document e ''uploads'' (uploaded_file rp) s0 = (Inl err, s1) \<Longrightarrow>
   qa_chain e rp s = (Inl err, s1)"
  by (simp add: qa_chain_def pipeline_def)

lemma qa_chain_embeddings_failure:
  "initialize_chat_model e (ChatModel_init (llm_provider rp) (llm_model rp) (llm_api_key rp)) s
     = (Inr cm, s0) \<Longrightarrow>
   load_document e ''uploads'' (uploaded_file rp) s0 = (Inr docs, s1) \<Longrightarrow>
   create_embeddings e = Inl err \<Longrightarrow>
   qa_chain e rp s = (Inl err, s1)"
  by (simp add: qa_chain_def pipeline_def)

lemma qa_chain_returns:
  "initialize_chat_model e (ChatModel_init (llm_provider rp) (llm_model rp) (llm_api_key rp)) s
     = (Inr cm, s0) \<Longrightarrow>
   load_document e ''uploads'' (uploaded_file rp) s0 = (Inr docs, s1) \<Longrightarrow>
   create_embeddings e = Inr emb \<Longrightarrow>
   get_retriever e
     (Retriever_init docs emb (vector_db_path rp)
        (Some (or_str (Some (fst (splitext (basename (uploaded_file rp))))) ''contract''))) s1
     = (rt, s2) \<Longrightarrow>
   qa_chain e rp s = (Inr (cm, rt), s2)"
  by (simp add: qa_chain_def pipeline_def Let_def)

lemma answer_operation_after_chain:
  "qa_chain e rp s = (Inr (cm, rt), s2) \<Longrightarrow>
   answer_operation e rp inp s = create_retrieval_qa_chain e cm rt inp s2"
  by (simp add: answer_operation_def)

text \<open>
  Claim C1, as the code has it.  For a question that is not empty after trimming, each
  step of the Answer operation, in the order the code runs them:

  \<^item> a failure of the chat-model construction is returned, and nothing else is called;
  \<^item> a failure of loading the document is returned;
  \<^item> a failure of constructing the embeddings is returned;
  \<^item> when \<open>get_retriever\<close> has returned a retriever, a failure of the retrieval query
    is returned;
  \<^item> a failure of the chat invocation is returned;
  \<^item> a failure of the splitter inside \<open>get_retriever\<close> is not returned, and neither is
    a failure to build a collection that is not ready: the retriever is \<open>None\<close>, and
    the answer is the model's text for the empty context, with the empty context list.
\<close>

theorem answer_failures_propagate:
  assumes q: "strip (or_str inp []) \<noteq> []"
  shows
   "(initialize_chat_model e
       (ChatModel_init (llm_provider rp) (llm_model rp) (llm_api_key rp)) s = (Inl err, s0)
      \<longrightarrow> answer_operation e rp inp s = (Inl err, s0))
  \<and> (initialize_chat_model e
       (ChatModel_init (llm_provider rp) (llm_model rp) (llm_api_key rp)) s = (Inr cm, s0)
      \<and> load_document e ''uploads'' (uploaded_file rp) s0 = (Inl err, s1)
      \<longrightarrow> answer_operation e rp inp s = (Inl err, s1))
  \<and> (initialize_chat_model e
       (ChatModel_init (llm_provider rp) (llm_model rp) (llm_api_key rp)) s = (Inr cm, s0)
      \<and> load_document e ''uploads'' (uploaded_file rp) s0 = (Inr docs, s1)
      \<and> create_embeddings e = Inl err
      \<longrightarrow> answer_operation e rp inp s = (Inl err, s1))
  \<and> (initialize_chat_model e
       (ChatModel_init (llm_provider rp) (llm_model rp) (llm_api_key rp)) s = (Inr cm, s0)
      \<and> load_document e ''uploads'' (uploaded_file rp) s0 = (Inr docs, s1)
      \<and> create_embeddings e = Inr emb
      \<and> get_retriever e
           (Retriever_init docs emb (vector_db_path rp)
              (Some (or_str (Some (fst (splitext (basename (uploaded_file rp)))))
                       ''contract''))) s1 = (Some r, s2)
      \<and> fst (get_relevant_documents e r (strip (or_str inp [])) s2) = Inl err
      \<longrightarrow> fst (answer_operation e rp inp s) = Inl err)
  \<and> (initialize_chat_model e
       (ChatModel_init (llm_provider rp) (llm_model rp) (llm_api_key rp)) s = (Inr cm, s0)
      \<and> load_document e ''uploads'' (uploaded_file rp) s0 = (Inr docs, s1)
      \<and> create_embeddings e = Inr emb
      \<and> get_retriever e
           (Retriever_init docs emb (vector_db_path rp)
              (Some (or_str (Some (fst (splitext (basename (uploaded_file rp)))))
                       ''contract''))) s1 = (rt, s2)
      \<and> retrieved e rt (strip (or_str inp [])) s2 = Inr ds
      \<and> chat e cm (format_messages (context_text ds) (strip (or_str inp []))) = Inl err
      \<longrightarrow> fst (answer_operation e rp inp s) = Inl err)
  \<and> (initialize_chat_model e
       (ChatModel_init (llm_provider rp) (llm_model rp) (llm_api_key rp)) s = (Inr cm, s0)
      \<and> load_document e ''uploads'' (uploaded_file rp) s0 = (Inr docs, s1)
      \<and> create_embeddings e = Inr emb
      \<and> split_documents e 1200 150 docs = Inl err
      \<and> chat e cm (format_messages [] (strip (or_str inp []))) = Inr res
      \<longrightarrow> fst (answer_operation e rp inp s)
            = Inr \<lparr>answer = response_text res, context_docs = []\<rparr>)
  \<and> (initialize_chat_model e
       (ChatModel_init (llm_provider rp) (llm_model rp) (llm_api_key rp)) s = (Inr cm, s0)
      \<and> load_document e ''uploads'' (uploaded_file rp) s0 = (Inr docs, s1)
      \<and> create_embeddings e = Inr emb
      \<and> split_documents e 1200 150 docs = Inr splits
      \<and> (chroma_open e (or_str (Some (fst (splitext (basename (uploaded_file rp)))))
                          ''contract'') \<noteq> None
          \<or> count_error e (or_str (Some (fst (splitext (basename (uploaded_file rp)))))
                             ''contract'') \<noteq> None
          \<or> store s1 (or_str (Some (fst (splitext (basename (uploaded_file rp)))))
                        ''contract'') = [])
      \<and> (chroma_create e (or_str (Some (fst (splitext (basename (uploaded_file rp)))))
                            ''contract'') \<noteq> None
          \<or> \<not> embeds_ok e emb splits
          \<or> chroma_add e (or_str (Some (fst (splitext (basename (uploaded_file rp)))))
                            ''contract'')
               (map (\<lambda>d. (vec_of e emb d, d)) splits) \<noteq> None)
      \<and> chat e cm (format_messages [] (strip (or_str inp []))) = Inr res
      \<longrightarrow> fst (answer_operation e rp inp s)
            = Inr \<lparr>answer = response_text res, context_docs = []\<rparr>)"
proof -
  let ?c = "ChatModel_init (llm_provider rp) (llm_model rp) (llm_api_key rp)"
  let ?name = "or_str (Some (fst (splitext (basename (uploaded_file rp))))) ''contract''"
  have c1: "initialize_chat_model e ?c s = (Inl err, s0)
      \<longrightarrow> answer_operation e rp inp s = (Inl err, s0)"
    by (simp add: answer_operation_def qa_chain_model_failure)
  have c2: "initialize_chat_model e ?c s = (Inr cm, s0)
      \<and> load_document e ''uploads'' (uploaded_file rp) s0 = (Inl err, s1)
      \<longrightarrow> answer_operation e rp inp s = (Inl err, s1)"
    by (auto simp: answer_operation_def dest: qa_chain_load_failure)
  have c3: "initialize_chat_model e ?c s = (Inr cm, s0)
      \<and> load_document e ''uploads'' (uploaded_file rp) s0 = (Inr docs, s1)
      \<and> create_embeddings e = Inl err
      \<longrightarrow> answer_operation e rp inp s = (Inl err, s1)"
    by (auto simp: answer_operation_def dest: qa_chain_embeddings_failure)
  have c4: "initialize_chat_model e ?c s = (Inr cm, s0)
      \<and> load_document e ''uploads'' (uploaded_file rp) s0 = (Inr docs, s1)
      \<and> create_embeddings e = Inr emb
      \<and> get_retriever e (Retriever_init docs emb (vector_db_path rp) (Some ?name)) s1
          = (Some r, s2)
      \<and> fst (get_relevant_documents e r (strip (or_str inp [])) s2) = Inl err
      \<longrightarrow> fst (answer_operation e rp inp s) = Inl err"
  proof
    assume a: "initialize_chat_model e ?c s = (Inr cm, s0)
      \<and> load_document e ''uploads'' (uploaded_file rp) s0 = (Inr docs, s1)
      \<and> create_embeddings e = Inr emb
      \<and> get_retriever e (Retriever_init docs emb (vector_db_path rp) (Some ?name)) s1
          = (Some r, s2)
      \<and> fst (get_relevant_documents e r (strip (or_str inp [])) s2) = Inl err"
    then have "qa_chain e rp s = (Inr (cm, Some r), s2)"
      using qa_chain_returns [where e = e and rp = rp and s = s and cm = cm and ?s0.0 = s0
          and ?s1.0 = s1 and docs = docs and emb = emb and rt = "Some r" and ?s2.0 = s2] by simp
    moreover from a have "retrieved e (Some r) (strip (or_str inp [])) s2 = Inl err"
      by (simp add: retrieved_def)
    ultimately show "fst (answer_operation e rp inp s) = Inl err"
      using q by (simp add: answer_operation_after_chain chain_retrieval_failure)
  qed
  have c5: "initialize_chat_model e ?c s = (Inr cm, s0)
      \<and> load_document e ''uploads'' (uploaded_file rp) s0 = (Inr docs, s1)
      \<and> create_embeddings e = Inr emb
      \<and> get_retriever e (Retriever_init docs emb (vector_db_path rp) (Some ?name)) s1
          = (rt, s2)
      \<and> retrieved e rt (strip (or_str inp [])) s2 = Inr ds
      \<and> chat e cm (format_messages (context_text ds) (strip (or_str inp []))) = Inl err
      \<longrightarrow> fst (answer_operation e rp inp s) = Inl err"
  proof
    assume a: "initialize_chat_model e ?c s = (Inr cm, s0)
      \<and> load_document e ''uploads'' (uploaded_file rp) s0 = (Inr docs, s1)
      \<and> create_embeddings e = Inr emb
      \<and> get_retriever e (Retriever_init docs emb (vector_db_path rp) (Some ?name)) s1
          = (rt, s2)
      \<and> retrieved e rt (strip (or_str inp [])) s2 = Inr ds
      \<and> chat e cm (format_messages (context_text ds) (strip (or_str inp []))) = Inl err"
    then have "qa_chain e rp s = (Inr (cm, rt), s2)"
      using qa_chain_returns [where e = e and rp = rp and s = s and cm = cm and ?s0.0 = s0
          and ?s1.0 = s1 and docs = docs and emb = emb and rt = rt and ?s2.0 = s2] by simp
    with a show "fst (answer_operation e rp inp s) = Inl err"
      using q chain_chat_failure [where inp = inp and e = e and rt = rt and s = s2 and docs = ds
          and cm = cm and err = err]
      by (simp add: answer_operation_after_chain)
  qed
  have c6: "initialize_chat_model e ?c s = (Inr cm, s0)
      \<and> load_document e ''uploads'' (uploaded_file rp) s0 = (Inr docs, s1)
      \<and> create_embeddings e = Inr emb
      \<and> split_documents e 1200 150 docs = Inl err
      \<and> chat e cm (format_messages [] (strip (or_str inp []))) = Inr res
      \<longrightarrow> fst (answer_operation e rp inp s)
            = Inr \<lparr>answer = response_text res, context_docs = []\<rparr>"
  proof
    let ?r = "Retriever_init docs emb (vector_db_path rp) (Some ?name)"
    assume a: "initialize_chat_model e ?c s = (Inr cm, s0)
      \<and> load_document e ''uploads'' (uploaded_file rp) s0 = (Inr docs, s1)
      \<and> create_embeddings e = Inr emb
      \<and> split_documents e 1200 150 docs = Inl err
      \<and> chat e cm (format_messages [] (strip (or_str inp []))) = Inr res"
    have d: "documents ?r = docs" by (simp add: Retriever_init_def)
    from a have "get_retriever e ?r s1 = (None, emit (EvSplit 1200 150 (documents ?r)) s1)"
      using get_retriever_split_fails [where e = e and r = ?r and err = err and s = s1] by (simp add: d)
    with a have "qa_chain e rp s = (Inr (cm, None), emit (EvSplit 1200 150 (documents ?r)) s1)"
      using qa_chain_returns [where e = e and rp = rp and s = s and cm = cm and ?s0.0 = s0
          and ?s1.0 = s1 and docs = docs and emb = emb and rt = None
          and ?s2.0 = "emit (EvSplit 1200 150 (documents ?r)) s1"]
      by simp
    with a show "fst (answer_operation e rp inp s)
            = Inr \<lparr>answer = response_text res, context_docs = []\<rparr>"
      using q by (simp add: answer_operation_after_chain chain_null_retriever)
  qed
  have c7: "initialize_chat_model e ?c s = (Inr cm, s0)
      \<and> load_document e ''uploads'' (uploaded_file rp) s0 = (Inr docs, s1)
      \<and> create_embeddings e = Inr emb
      \<and> split_documents e 1200 150 docs = Inr splits
      \<and> (chroma_open e ?name \<noteq> None \<or> count_error e ?name \<noteq> None \<or> store s1 ?name = [])
      \<and> (chroma_create e ?name \<noteq> None \<or> \<not> embeds_ok e emb splits
          \<or> chroma_add e ?name (map (\<lambda>d. (vec_of e emb d, d)) splits) \<noteq> None)
      \<and> chat e cm (format_messages [] (strip (or_str inp []))) = Inr res
      \<longrightarrow> fst (answer_operation e rp inp s)
            = Inr \<lparr>answer = response_text res, context_docs = []\<rparr>"
  proof
    let ?r = "Retriever_init docs emb (vector_db_path rp) (Some ?name)"
    assume a: "initialize_chat_model e ?c s = (Inr cm, s0)
      \<and> load_document e ''uploads'' (uploaded_file rp) s0 = (Inr docs, s1)
      \<and> create_embeddings e = Inr emb
      \<and> split_documents e 1200 150 docs = Inr splits
      \<and> (chroma_open e ?name \<noteq> None \<or> count_error e ?name \<noteq> None \<or> store s1 ?name = [])
      \<and> (chroma_create e ?name \<noteq> None \<or> \<not> embeds_ok e emb splits
          \<or> chroma_add e ?name (map (\<lambda>d. (vec_of e emb d, d)) splits) \<noteq> None)
      \<and> chat e cm (format_messages [] (strip (or_str inp []))) = Inr res"
    have d: "documents ?r = docs" "embedding ?r = emb" "collection_name ?r = ?name"
      by (simp_all add: Retriever_init_def or_str_def)
    from a have sp: "split_documents e 1200 150 (documents ?r) = Inr splits" by (simp add: d)
    from a have stale: "chroma_open e (collection_name ?r) \<noteq> None
        \<or> count_error e (collection_name ?r) \<noteq> None \<or> store s1 (collection_name ?r) = []"
      unfolding d by simp
    from a have bad: "chroma_create e (collection_name ?r) \<noteq> None
        \<or> \<not> embeds_ok e (embedding ?r) splits
        \<or> chroma_add e (collection_name ?r)
             (map (\<lambda>d. (vec_of e (embedding ?r) d, d)) splits) \<noteq> None"
      unfolding d by simp
    from get_retriever_build_fails(1) [OF sp stale bad]
    have "get_retriever e ?r s1 = (None, snd (get_retriever e ?r s1))"
      by (simp add: prod_eq_iff)
    with a have "qa_chain e rp s = (Inr (cm, None), snd (get_retriever e ?r s1))"
      using qa_chain_returns [where e = e and rp = rp and s = s and cm = cm and ?s0.0 = s0
          and ?s1.0 = s1 and docs = docs and emb = emb and rt = None
          and ?s2.0 = "snd (get_retriever e ?r s1)"]
      by simp
    with a show "fst (answer_operation e rp inp s)
            = Inr \<lparr>answer = response_text res, context_docs = []\<rparr>"
      using q by (simp add: answer_operation_after_chain chain_null_retriever)
  qed
  from c1 c2 c3 c4 c5 c6 c7 show ?thesis by blast
qed

lemma demo_q: "strip (or_str (Some ''Term?'') []) = ''Term?''"
  by code_simp

theorem answer_failures_propagate_witness:
  "strip (or_str (Some ''Term?'') []) = ''Term?'' \<and>
   fst (initialize_chat_model demo_env (ChatModel_init (llm_provider (demo_pipeline\<lparr>llm_provider := ''mistral''\<rparr>)) (llm_model (demo_pipeline\<lparr>llm_provider := ''mistral''\<rparr>)) (llm_api_key (demo_pipeline\<lparr>llm_provider := ''mistral''\<rparr>))) empty_state) = Inl (ValueError ''Unsupported LLM provider: mistral'') \<and>
   fst (answer_operation demo_env (demo_pipeline\<lparr>llm_provider := ''mistral''\<rparr>) (Some ''Term?'') empty_state) = Inl (ValueError ''Unsupported LLM provider: mistral'') \<and>
   calls (snd (answer_operation demo_env (demo_pipeline\<lparr>llm_provider := ''mistral''\<rparr>) (Some ''Term?'') empty_state)) = [] \<and>
   fst (load_document no_file_env ''uploads'' (uploaded_file demo_pipeline) empty_state) = Inl (FileNotFoundError ''Uploaded file not found: uploads/lease.txt'') \<and>
   fst (answer_operation no_file_env demo_pipeline (Some ''Term?'') empty_state) = Inl (FileNotFoundError ''Uploaded file not found: uploads/lease.txt'') \<and>
   create_embeddings no_embeddings_env = Inl (BackendError ''ValidationError'') \<and>
   fst (answer_operation no_embeddings_env demo_pipeline (Some ''Term?'') empty_state) = Inl (BackendError ''ValidationError'') \<and>
   fst (get_relevant_documents query_down_env (as_retriever ''lease'') ''Term?'' ready_state) = Inl (BackendError ''InternalError'') \<and>
   fst (answer_operation query_down_env demo_pipeline (Some ''Term?'') ready_state) = Inl (BackendError ''InternalError'') \<and>
   chat chat_down_env demo_model (format_messages (context_text demo_docs) ''Term?'') = Inl (BackendError ''RateLimitError'') \<and>
   fst (answer_operation chat_down_env demo_pipeline (Some ''Term?'') ready_state) = Inl (BackendError ''RateLimitError'') \<and>
   split_documents no_split_env 1200 150 demo_docs = Inl (BackendError ''TypeError'') \<and>
   fst (answer_operation no_split_env demo_pipeline (Some ''Term?'') empty_state) = Inr \<lparr>answer = ''It says so.'', context_docs = []\<rparr> \<and>
   embed no_embed_env (HuggingFaceEmbeddings ''sentence-transformers/all-MiniLM-L6-v2'') ''Clause one.'' = Inl (BackendError ''AuthenticationError'') \<and>
   fst (answer_operation no_embed_env demo_pipeline (Some ''Term?'') empty_state) = Inr \<lparr>answer = ''It says so.'', context_docs = []\<rparr>"
proof -
  have ne: "strip (or_str (Some ''Term?'') []) \<noteq> []" by (simp add: demo_q)
  have rt: "response_text \<lparr>content = Some ''It says so.'', str_repr = ''AIMessage''\<rparr> = ''It says so.''"
    by (simp add: response_text_def or_str_def)
  have i1f: "fst (initialize_chat_model demo_env (ChatModel_init (llm_provider (demo_pipeline\<lparr>llm_provider := ''mistral''\<rparr>)) (llm_model (demo_pipeline\<lparr>llm_provider := ''mistral''\<rparr>)) (llm_api_key (demo_pipeline\<lparr>llm_provider := ''mistral''\<rparr>))) empty_state) = Inl (ValueError ''Unsupported LLM provider: mistral'')" by code_simp
  have i1: "initialize_chat_model demo_env (ChatModel_init (llm_provider (demo_pipeline\<lparr>llm_provider := ''mistral''\<rparr>)) (llm_model (demo_pipeline\<lparr>llm_provider := ''mistral''\<rparr>)) (llm_api_key (demo_pipeline\<lparr>llm_provider := ''mistral''\<rparr>))) empty_state = (Inl (ValueError ''Unsupported LLM provider: mistral''), (snd (initialize_chat_model demo_env (ChatModel_init (llm_provider (demo_pipeline\<lparr>llm_provider := ''mistral''\<rparr>)) (llm_model (demo_pipeline\<lparr>llm_provider := ''mistral''\<rparr>)) (llm_api_key (demo_pipeline\<lparr>llm_provider := ''mistral''\<rparr>))) empty_state)))"
    using i1f by (simp add: prod_eq_iff)
  from answer_failures_propagate [OF ne, where e = "demo_env"
      and rp = "(demo_pipeline\<lparr>llm_provider := ''mistral''\<rparr>)"
      and s = "empty_state"
      and err = "(ValueError ''Unsupported LLM provider: mistral'')"
      and cm = "demo_model"
      and docs = "demo_docs"
      and emb = "(HuggingFaceEmbeddings ''sentence-transformers/all-MiniLM-L6-v2'')"
      and r = "(as_retriever ''lease'')"
      and rt = "(Some (as_retriever ''lease''))"
      and ds = "demo_docs"
      and res = "\<lparr>content = Some ''It says so.'', str_repr = ''AIMessage''\<rparr>"
      and splits = "demo_docs"
      and ?s0.0 = "(snd (initialize_chat_model demo_env (ChatModel_init (llm_provider (demo_pipeline\<lparr>llm_provider := ''mistral''\<rparr>)) (llm_model (demo_pipeline\<lparr>llm_provider := ''mistral''\<rparr>)) (llm_api_key (demo_pipeline\<lparr>llm_provider := ''mistral''\<rparr>))) empty_state))"
      and ?s1.0 = "(snd (load_document demo_env ''uploads'' (uploaded_file (demo_pipeline\<lparr>llm_provider := ''mistral''\<rparr>)) (snd (initialize_chat_model demo_env (ChatModel_init (llm_provider (demo_pipeline\<lparr>llm_provider := ''mistral''\<rparr>)) (llm_model (demo_pipeline\<lparr>llm_provider := ''mistral''\<rparr>)) (llm_api_key (demo_pipeline\<lparr>llm_provider := ''mistral''\<rparr>))) empty_state))))"
      and ?s2.0 = "(snd (get_retriever demo_env (Retriever_init demo_docs (HuggingFaceEmbeddings ''sentence-transformers/all-MiniLM-L6-v2'') (vector_db_path (demo_pipeline\<lparr>llm_provider := ''mistral''\<rparr>)) (Some (or_str (Some (fst (splitext (basename (uploaded_file (demo_pipeline\<lparr>llm_provider := ''mistral''\<rparr>)))))) ''contract''))) (snd (load_document demo_env ''uploads'' (uploaded_file (demo_pipeline\<lparr>llm_provider := ''mistral''\<rparr>)) (snd (initialize_chat_model demo_env (ChatModel_init (llm_provider (demo_pipeline\<lparr>llm_provider := ''mistral''\<rparr>)) (llm_model (demo_pipeline\<lparr>llm_provider := ''mistral''\<rparr>)) (llm_api_key (demo_pipeline\<lparr>llm_provider := ''mistral''\<rparr>))) empty_state))))))"] i1
  have w1: "answer_operation demo_env (demo_pipeline\<lparr>llm_provider := ''mistral''\<rparr>) (Some ''Term?'') empty_state = (Inl (ValueError ''Unsupported LLM provider: mistral''), (snd (initialize_chat_model demo_env (ChatModel_init (llm_provider (demo_pipeline\<lparr>llm_provider := ''mistral''\<rparr>)) (llm_model (demo_pipeline\<lparr>llm_provider := ''mistral''\<rparr>)) (llm_api_key (demo_pipeline\<lparr>llm_provider := ''mistral''\<rparr>))) empty_state)))" by simp
  have w1c: "calls (snd (initialize_chat_model demo_env (ChatModel_init (llm_provider (demo_pipeline\<lparr>llm_provider := ''mistral''\<rparr>)) (llm_model (demo_pipeline\<lparr>llm_provider := ''mistral''\<rparr>)) (llm_api_key (demo_pipeline\<lparr>llm_provider := ''mistral''\<rparr>))) empty_state)) = []" by code_simp
  have i2f: "fst (initialize_chat_model no_file_env (ChatModel_init (llm_provider demo_pipeline) (llm_model demo_pipeline) (llm_api_key demo_pipeline)) empty_state) = Inr demo_model" by code_simp
  have i2: "initialize_chat_model no_file_env (ChatModel_init (llm_provider demo_pipeline) (llm_model demo_pipeline) (llm_api_key demo_pipeline)) empty_state = (Inr demo_model, (snd (initialize_chat_model no_file_env (ChatModel_init (llm_provider demo_pipeline) (llm_model demo_pipeline) (llm_api_key demo_pipeline)) empty_state)))"
    using i2f by (simp add: prod_eq_iff)
  have l2f: "fst (load_document no_file_env ''uploads'' (uploaded_file demo_pipeline) (snd (initialize_chat_model no_file_env (ChatModel_init (llm_provider demo_pipeline) (llm_model demo_pipeline) (llm_api_key demo_pipeline)) empty_state))) = Inl (FileNotFoundError ''Uploaded file not found: uploads/lease.txt'')" by code_simp
  have l2: "load_document no_file_env ''uploads'' (uploaded_file demo_pipeline) (snd (initialize_chat_model no_file_env (ChatModel_init (llm_provider demo_pipeline) (llm_model demo_pipeline) (llm_api_key demo_pipeline)) empty_state)) = (Inl (FileNotFoundError ''Uploaded file not found: uploads/lease.txt''), (snd (load_document no_file_env ''uploads'' (uploaded_file demo_pipeline) (snd (initialize_chat_model no_file_env (ChatModel_init (llm_provider demo_pipeline) (llm_model demo_pipeline) (llm_api_key demo_pipeline)) empty_state)))))"
    using l2f by (simp add: prod_eq_iff)
  from answer_failures_propagate [OF ne, where e = "no_file_env"
      and rp = "demo_pipeline"
      and s = "empty_state"
      and err = "(FileNotFoundError ''Uploaded file not found: uploads/lease.txt'')"
      and cm = "demo_model"
      and docs = "demo_docs"
      and emb = "(HuggingFaceEmbeddings ''sentence-transformers/all-MiniLM-L6-v2'')"
      and r = "(as_retriever ''lease'')"
      and rt = "(Some (as_retriever ''lease''))"
      and ds = "demo_docs"
      and res = "\<lparr>content = Some ''It says so.'', str_repr = ''AIMessage''\<rparr>"
      and splits = "demo_docs"
      and ?s0.0 = "(snd (initialize_chat_model no_file_env (ChatModel_init (llm_provider demo_pipeline) (llm_model demo_pipeline) (llm_api_key demo_pipeline)) empty_state))"
      and ?s1.0 = "(snd (load_document no_file_env ''uploads'' (uploaded_file demo_pipeline) (snd (initialize_chat_model no_file_env (ChatModel_init (llm_provider demo_pipeline) (llm_model demo_pipeline) (llm_api_key demo_pipeline)) empty_state))))"
      and ?s2.0 = "(snd (get_retriever no_file_env (Retriever_init demo_docs (HuggingFaceEmbeddings ''sentence-transformers/all-MiniLM-L6-v2'') (vector_db_path demo_pipeline) (Some (or_str (Some (fst (splitext (basename (uploaded_file demo_pipeline))))) ''contract''))) (snd (load_document no_file_env ''uploads'' (uploaded_file demo_pipeline) (snd (initialize_chat_model no_file_env (ChatModel_init (llm_provider demo_pipeline) (llm_model demo_pipeline) (llm_api_key demo_pipeline)) empty_state))))))"] i2 l2
  have w2: "answer_operation no_file_env demo_pipeline (Some ''Term?'') empty_state = (Inl (FileNotFoundError ''Uploaded file not found: uploads/lease.txt''), (snd (load_document no_file_env ''uploads'' (uploaded_file demo_pipeline) (snd (initialize_chat_model no_file_env (ChatModel_init (llm_provider demo_pipeline) (llm_model demo_pipeline) (llm_api_key demo_pipeline)) empty_state)))))" by simp
  have f2: "fst (load_document no_file_env ''uploads'' (uploaded_file demo_pipeline) empty_state) = Inl (FileNotFoundError ''Uploaded file not found: uploads/lease.txt'')" by code_simp
  have i3f: "fst (initialize_chat_model no_embeddings_env (ChatModel_init (llm_provider demo_pipeline) (llm_model demo_pipeline) (llm_api_key demo_pipeline)) empty_state) = Inr demo_model" by code_simp
  have i3: "initialize_chat_model no_embeddings_env (ChatModel_init (llm_provider demo_pipeline) (llm_model demo_pipeline) (llm_api_key demo_pipeline)) empty_state = (Inr demo_model, (snd (initialize_chat_model no_embeddings_env (ChatModel_init (llm_provider demo_pipeline) (llm_model demo_pipeline) (llm_api_key demo_pipeline)) empty_state)))"
    using i3f by (simp add: prod_eq_iff)
  have l3f: "fst (load_document no_embeddings_env ''uploads'' (uploaded_file demo_pipeline) (snd (initialize_chat_model no_embeddings_env (ChatModel_init (llm_provider demo_pipeline) (llm_model demo_pipeline) (llm_api_key demo_pipeline)) empty_state))) = Inr demo_docs" by code_simp
  have l3: "load_document no_embeddings_env ''uploads'' (uploaded_file demo_pipeline) (snd (initialize_chat_model no_embeddings_env (ChatModel_init (llm_provider demo_pipeline) (llm_model demo_pipeline) (llm_api_key demo_pipeline)) empty_state)) = (Inr demo_docs, (snd (load_document no_embeddings_env ''uploads'' (uploaded_file demo_pipeline) (snd (initialize_chat_model no_embeddings_env (ChatModel_init (llm_provider demo_pipeline) (llm_model demo_pipeline) (llm_api_key demo_pipeline)) empty_state)))))"
    using l3f by (simp add: prod_eq_iff)
  have e3: "create_embeddings no_embeddings_env = Inl (BackendError ''ValidationError'')" by code_simp
  from answer_failures_propagate [OF ne, where e = "no_embeddings_env"
      and rp = "demo_pipeline"
      and s = "empty_state"
      and err = "(BackendError ''ValidationError'')"
      and cm = "demo_model"
      and docs = "demo_docs"
      and emb = "(HuggingFaceEmbeddings ''sentence-transformers/all-MiniLM-L6-v2'')"
      and r = "(as_retriever ''lease'')"
      and rt = "(Some (as_retriever ''lease''))"
      and ds = "demo_docs"
      and res = "\<lparr>content = Some ''It says so.'', str_repr = ''AIMessage''\<rparr>"
      and splits = "demo_docs"
      and ?s0.0 = "(snd (initialize_chat_model no_embeddings_env (ChatModel_init (llm_provider demo_pipeline) (llm_model demo_pipeline) (llm_api_key demo_pipeline)) empty_state))"
      and ?s1.0 = "(snd (load_document no_embeddings_env ''uploads'' (uploaded_file demo_pipeline) (snd (initialize_chat_model no_embeddings_env (ChatModel_init (llm_provider demo_pipeline) (llm_model demo_pipeline) (llm_api_key demo_pipeline)) empty_state))))"
      and ?s2.0 = "(snd (get_retriever no_embeddings_env (Retriever_init demo_docs (HuggingFaceEmbeddings ''sentence-transformers/all-MiniLM-L6-v2'') (vector_db_path demo_pipeline) (Some (or_str (Some (fst (splitext (basename (uploaded_file demo_pipeline))))) ''contract''))) (snd (load_document no_embeddings_env ''uploads'' (uploaded_file demo_pipeline) (snd (initialize_chat_model no_embeddings_env (ChatModel_init (llm_provider demo_pipeline) (llm_model demo_pipeline) (llm_api_key demo_pipeline)) empty_state))))))"] i3 l3 e3
  have w3: "answer_operation no_embeddings_env demo_pipeline (Some ''Term?'') empty_state = (Inl (BackendError ''ValidationError''), (snd (load_document no_embeddings_env ''uploads'' (uploaded_file demo_pipeline) (snd (initialize_chat_model no_embeddings_env (ChatModel_init (llm_provider demo_pipeline) (llm_model demo_pipeline) (llm_api_key demo_pipeline)) empty_state)))))" by simp
  have i4f: "fst (initialize_chat_model query_down_env (ChatModel_init (llm_provider demo_pipeline) (llm_model demo_pipeline) (llm_api_key demo_pipeline)) ready_state) = Inr demo_model" by code_simp
  have i4: "initialize_chat_model query_down_env (ChatModel_init (llm_provider demo_pipeline) (llm_model demo_pipeline) (llm_api_key demo_pipeline)) ready_state = (Inr demo_model, (snd (initialize_chat_model query_down_env (ChatModel_init (llm_provider demo_pipeline) (llm_model demo_pipeline) (llm_api_key demo_pipeline)) ready_state)))"
    using i4f by (simp add: prod_eq_iff)
  have l4f: "fst (load_document query_down_env ''uploads'' (uploaded_file demo_pipeline) (snd (initialize_chat_model query_down_env (ChatModel_init (llm_provider demo_pipeline) (llm_model demo_pipeline) (llm_api_key demo_pipeline)) ready_state))) = Inr demo_docs" by code_simp
  have l4: "load_document query_down_env ''uploads'' (uploaded_file demo_pipeline) (snd (initialize_chat_model query_down_env (ChatModel_init (llm_provider demo_pipeline) (llm_model demo_pipeline) (llm_api_key demo_pipeline)) ready_state)) = (Inr demo_docs, (snd (load_document query_down_env ''uploads'' (uploaded_file demo_pipeline) (snd (initialize_chat_model query_down_env (ChatModel_init (llm_provider demo_pipeline) (llm_model demo_pipeline) (llm_api_key demo_pipeline)) ready_state)))))"
    using l4f by (simp add: prod_eq_iff)
  have e4: "create_embeddings query_down_env = Inr (HuggingFaceEmbeddings ''sentence-transformers/all-MiniLM-L6-v2'')" by code_simp
  have g4f: "fst (get_retriever query_down_env (Retriever_init demo_docs (HuggingFaceEmbeddings ''sentence-transformers/all-MiniLM-L6-v2'') (vector_db_path demo_pipeline) (Some (or_str (Some (fst (splitext (basename (uploaded_file demo_pipeline))))) ''contract''))) (snd (load_document query_down_env ''uploads'' (uploaded_file demo_pipeline) (snd (initialize_chat_model query_down_env (ChatModel_init (llm_provider demo_pipeline) (llm_model demo_pipeline) (llm_api_key demo_pipeline)) ready_state))))) = Some (as_retriever ''lease'')" by code_simp
  have g4: "get_retriever query_down_env (Retriever_init demo_docs (HuggingFaceEmbeddings ''sentence-transformers/all-MiniLM-L6-v2'') (vector_db_path demo_pipeline) (Some (or_str (Some (fst (splitext (basename (uploaded_file demo_pipeline))))) ''contract''))) (snd (load_document query_down_env ''uploads'' (uploaded_file demo_pipeline) (snd (initialize_chat_model query_down_env (ChatModel_init (llm_provider demo_pipeline) (llm_model demo_pipeline) (llm_api_key demo_pipeline)) ready_state)))) = (Some (as_retriever ''lease''), (snd (get_retriever query_down_env (Retriever_init demo_docs (HuggingFaceEmbeddings ''sentence-transformers/all-MiniLM-L6-v2'') (vector_db_path demo_pipeline) (Some (or_str (Some (fst (splitext (basename (uploaded_file demo_pipeline))))) ''contract''))) (snd (load_document query_down_env ''uploads'' (uploaded_file demo_pipeline) (snd (initialize_chat_model query_down_env (ChatModel_init (llm_provider demo_pipeline) (llm_model demo_pipeline) (llm_api_key demo_pipeline)) ready_state)))))))"
    using g4f by (simp add: prod_eq_iff)
  have q4: "fst (get_relevant_documents query_down_env (as_retriever ''lease'') (strip (or_str (Some ''Term?'') [])) (snd (get_retriever query_down_env (Retriever_init demo_docs (HuggingFaceEmbeddings ''sentence-transformers/all-MiniLM-L6-v2'') (vector_db_path demo_pipeline) (Some (or_str (Some (fst (splitext (basename (uploaded_file demo_pipeline))))) ''contract''))) (snd (load_document query_down_env ''uploads'' (uploaded_file demo_pipeline) (snd (initialize_chat_model query_down_env (ChatModel_init (llm_provider demo_pipeline) (llm_model demo_pipeline) (llm_api_key demo_pipeline)) ready_state))))))) = Inl (BackendError ''InternalError'')" by code_simp
  from answer_failures_propagate [OF ne, where e = "query_down_env"
      and rp = "demo_pipeline"
      and s = "ready_state"
      and err = "(BackendError ''InternalError'')"
      and cm = "demo_model"
      and docs = "demo_docs"
      and emb = "(HuggingFaceEmbeddings ''sentence-transformers/all-MiniLM-L6-v2'')"
      and r = "(as_retriever ''lease'')"
      and rt = "(Some (as_retriever ''lease''))"
      and ds = "demo_docs"
      and res = "\<lparr>content = Some ''It says so.'', str_repr = ''AIMessage''\<rparr>"
      and splits = "demo_docs"
      and ?s0.0 = "(snd (initialize_chat_model query_down_env (ChatModel_init (llm_provider demo_pipeline) (llm_model demo_pipeline) (llm_api_key demo_pipeline)) ready_state))"
      and ?s1.0 = "(snd (load_document query_down_env ''uploads'' (uploaded_file demo_pipeline) (snd (initialize_chat_model query_down_env (ChatModel_init (llm_provider demo_pipeline) (llm_model demo_pipeline) (llm_api_key demo_pipeline)) ready_state))))"
      and ?s2.0 = "(snd (get_retriever query_down_env (Retriever_init demo_docs (HuggingFaceEmbeddings ''sentence-transformers/all-MiniLM-L6-v2'') (vector_db_path demo_pipeline) (Some (or_str (Some (fst (splitext (basename (uploaded_file demo_pipeline))))) ''contract''))) (snd (load_document query_down_env ''uploads'' (uploaded_file demo_pipeline) (snd (initialize_chat_model query_down_env (ChatModel_init (llm_provider demo_pipeline) (llm_model demo_pipeline) (llm_api_key demo_pipeline)) ready_state))))))"] i4 l4 e4 g4 q4
  have w4: "fst (answer_operation query_down_env demo_pipeline (Some ''Term?'') ready_state) = Inl (BackendError ''InternalError'')" by simp
  have f4: "fst (get_relevant_documents query_down_env (as_retriever ''lease'') ''Term?'' ready_state) = Inl (BackendError ''InternalError'')" by code_simp
  have i5f: "fst (initialize_chat_model chat_down_env (ChatModel_init (llm_provider demo_pipeline) (llm_model demo_pipeline) (llm_api_key demo_pipeline)) ready_state) = Inr demo_model" by code_simp
  have i5: "initialize_chat_model chat_down_env (ChatModel_init (llm_provider demo_pipeline) (llm_model demo_pipeline) (llm_api_key demo_pipeline)) ready_state = (Inr demo_model, (snd (initialize_chat_model chat_down_env (ChatModel_init (llm_provider demo_pipeline) (llm_model demo_pipeline) (llm_api_key demo_pipeline)) ready_state)))"
    using i5f by (simp add: prod_eq_iff)
  have l5f: "fst (load_document chat_down_env ''uploads'' (uploaded_file demo_pipeline) (snd (initialize_chat_model chat_down_env (ChatModel_init (llm_provider demo_pipeline) (llm_model demo_pipeline) (llm_api_key demo_pipeline)) ready_state))) = Inr demo_docs" by code_simp
  have l5: "load_document chat_down_env ''uploads'' (uploaded_file demo_pipeline) (snd (initialize_chat_model chat_down_env (ChatModel_init (llm_provider demo_pipeline) (llm_model demo_pipeline) (llm_api_key demo_pipeline)) ready_state)) = (Inr demo_docs, (snd (load_document chat_down_env ''uploads'' (uploaded_file demo_pipeline) (snd (initialize_chat_model chat_down_env (ChatModel_init (llm_provider demo_pipeline) (llm_model demo_pipeline) (llm_api_key demo_pipeline)) ready_state)))))"
    using l5f by (simp add: prod_eq_iff)
  have e5: "create_embeddings chat_down_env = Inr (HuggingFaceEmbeddings ''sentence-transformers/all-MiniLM-L6-v2'')" by code_simp
  have g5f: "fst (get_retriever chat_down_env (Retriever_init demo_docs (HuggingFaceEmbeddings ''sentence-transformers/all-MiniLM-L6-v2'') (vector_db_path demo_pipeline) (Some (or_str (Some (fst (splitext (basename (uploaded_file demo_pipeline))))) ''contract''))) (snd (load_document chat_down_env ''uploads'' (uploaded_file demo_pipeline) (snd (initialize_chat_model chat_down_env (ChatModel_init (llm_provider demo_pipeline) (llm_model demo_pipeline) (llm_api_key demo_pipeline)) ready_state))))) = Some (as_retriever ''lease'')" by code_simp
  have g5: "get_retriever chat_down_env (Retriever_init demo_docs (HuggingFaceEmbeddings ''sentence-transformers/all-MiniLM-L6-v2'') (vector_db_path demo_pipeline) (Some (or_str (Some (fst (splitext (basename (uploaded_file demo_pipeline))))) ''contract''))) (snd (load_document chat_down_env ''uploads'' (uploaded_file demo_pipeline) (snd (initialize_chat_model chat_down_env (ChatModel_init (llm_provider demo_pipeline) (llm_model demo_pipeline) (llm_api_key demo_pipeline)) ready_state)))) = (Some (as_retriever ''lease''), (snd (get_retriever chat_down_env (Retriever_init demo_docs (HuggingFaceEmbeddings ''sentence-transformers/all-MiniLM-L6-v2'') (vector_db_path demo_pipeline) (Some (or_str (Some (fst (splitext (basename (uploaded_file demo_pipeline))))) ''contract''))) (snd (load_document chat_down_env ''uploads'' (uploaded_file demo_pipeline) (snd (initialize_chat_model chat_down_env (ChatModel_init (llm_provider demo_pipeline) (llm_model demo_pipeline) (llm_api_key demo_pipeline)) ready_state)))))))"
    using g5f by (simp add: prod_eq_iff)
  have q5: "retrieved chat_down_env (Some (as_retriever ''lease'')) (strip (or_str (Some ''Term?'') [])) (snd (get_retriever chat_down_env (Retriever_init demo_docs (HuggingFaceEmbeddings ''sentence-transformers/all-MiniLM-L6-v2'') (vector_db_path demo_pipeline) (Some (or_str (Some (fst (splitext (basename (uploaded_file demo_pipeline))))) ''contract''))) (snd (load_document chat_down_env ''uploads'' (uploaded_file demo_pipeline) (snd (initialize_chat_model chat_down_env (ChatModel_init (llm_provider demo_pipeline) (llm_model demo_pipeline) (llm_api_key demo_pipeline)) ready_state)))))) = Inr demo_docs" by code_simp
  have c5: "chat chat_down_env demo_model (format_messages (context_text demo_docs) (strip (or_str (Some ''Term?'') []))) = Inl (BackendError ''RateLimitError'')"
    by (simp add: chat_down_env_def demo_env_def)
  from answer_failures_propagate [OF ne, where e = "chat_down_env"
      and rp = "demo_pipeline"
      and s = "ready_state"
      and err = "(BackendError ''RateLimitError'')"
      and cm = "demo_model"
      and docs = "demo_docs"
      and emb = "(HuggingFaceEmbeddings ''sentence-transformers/all-MiniLM-L6-v2'')"
      and r = "(as_retriever ''lease'')"
      and rt = "(Some (as_retriever ''lease''))"
      and ds = "demo_docs"
      and res = "\<lparr>content = Some ''It says so.'', str_repr = ''AIMessage''\<rparr>"
      and splits = "demo_docs"
      and ?s0.0 = "(snd (initialize_chat_model chat_down_env (ChatModel_init (llm_provider demo_pipeline) (llm_model demo_pipeline) (llm_api_key demo_pipeline)) ready_state))"
      and ?s1.0 = "(snd (load_document chat_down_env ''uploads'' (uploaded_file demo_pipeline) (snd (initialize_chat_model chat_down_env (ChatModel_init (llm_provider demo_pipeline) (llm_model demo_pipeline) (llm_api_key demo_pipeline)) ready_state))))"
      and ?s2.0 = "(snd (get_retriever chat_down_env (Retriever_init demo_docs (HuggingFaceEmbeddings ''sentence-transformers/all-MiniLM-L6-v2'') (vector_db_path demo_pipeline) (Some (or_str (Some (fst (splitext (basename (uploaded_file demo_pipeline))))) ''contract''))) (snd (load_document chat_down_env ''uploads'' (uploaded_file demo_pipeline) (snd (initialize_chat_model chat_down_env (ChatModel_init (llm_provider demo_pipeline) (llm_model demo_pipeline) (llm_api_key demo_pipeline)) ready_state))))))"] i5 l5 e5 g5 q5 c5
  have w5: "fst (answer_operation chat_down_env demo_pipeline (Some ''Term?'') ready_state) = Inl (BackendError ''RateLimitError'')" by simp
  have f5: "chat chat_down_env demo_model (format_messages (context_text demo_docs) ''Term?'') = Inl (BackendError ''RateLimitError'')"
    by (simp add: chat_down_env_def demo_env_def)
  have i6f: "fst (initialize_chat_model no_split_env (ChatModel_init (llm_provider demo_pipeline) (llm_model demo_pipeline) (llm_api_key demo_pipeline)) empty_state) = Inr demo_model" by code_simp
  have i6: "initialize_chat_model no_split_env (ChatModel_init (llm_provider demo_pipeline) (llm_model demo_pipeline) (llm_api_key demo_pipeline)) empty_state = (Inr demo_model, (snd (initialize_chat_model no_split_env (ChatModel_init (llm_provider demo_pipeline) (llm_model demo_pipeline) (llm_api_key demo_pipeline)) empty_state)))"
    using i6f by (simp add: prod_eq_iff)
  have l6f: "fst (load_document no_split_env ''uploads'' (uploaded_file demo_pipeline) (snd (initialize_chat_model no_split_env (ChatModel_init (llm_provider demo_pipeline) (llm_model demo_pipeline) (llm_api_key demo_pipeline)) empty_state))) = Inr demo_docs" by code_simp
  have l6: "load_document no_split_env ''uploads'' (uploaded_file demo_pipeline) (snd (initialize_chat_model no_split_env (ChatModel_init (llm_provider demo_pipeline) (llm_model demo_pipeline) (llm_api_key demo_pipeline)) empty_state)) = (Inr demo_docs, (snd (load_document no_split_env ''uploads'' (uploaded_file demo_pipeline) (snd (initialize_chat_model no_split_env (ChatModel_init (llm_provider demo_pipeline) (llm_model demo_pipeline) (llm_api_key demo_pipeline)) empty_state)))))"
    using l6f by (simp add: prod_eq_iff)
  have e6: "create_embeddings no_split_env = Inr (HuggingFaceEmbeddings ''sentence-transformers/all-MiniLM-L6-v2'')" by code_simp
  have p6: "split_documents no_split_env 1200 150 demo_docs = Inl (BackendError ''TypeError'')"
    by (simp add: no_split_env_def)
  have c6: "chat no_split_env demo_model (format_messages [] (strip (or_str (Some ''Term?'') []))) = Inr \<lparr>content = Some ''It says so.'', str_repr = ''AIMessage''\<rparr>"
    by (simp add: no_split_env_def demo_env_def)
  from answer_failures_propagate [OF ne, where e = "no_split_env"
      and rp = "demo_pipeline"
      and s = "empty_state"
      and err = "(BackendError ''TypeError'')"
      and cm = "demo_model"
      and docs = "demo_docs"
      and emb = "(HuggingFaceEmbeddings ''sentence-transformers/all-MiniLM-L6-v2'')"
      and r = "(as_retriever ''lease'')"
      and rt = "(Some (as_retriever ''lease''))"
      and ds = "demo_docs"
      and res = "\<lparr>content = Some ''It says so.'', str_repr = ''AIMessage''\<rparr>"
      and splits = "demo_docs"
      and ?s0.0 = "(snd (initialize_chat_model no_split_env (ChatModel_init (llm_provider demo_pipeline) (llm_model demo_pipeline) (llm_api_key demo_pipeline)) empty_state))"
      and ?s1.0 = "(snd (load_document no_split_env ''uploads'' (uploaded_file demo_pipeline) (snd (initialize_chat_model no_split_env (ChatModel_init (llm_provider demo_pipeline) (llm_model demo_pipeline) (llm_api_key demo_pipeline)) empty_state))))"
      and ?s2.0 = "(snd (get_retriever no_split_env (Retriever_init demo_docs (HuggingFaceEmbeddings ''sentence-transformers/all-MiniLM-L6-v2'') (vector_db_path demo_pipeline) (Some (or_str (Some (fst (splitext (basename (uploaded_file demo_pipeline))))) ''contract''))) (snd (load_document no_split_env ''uploads'' (uploaded_file demo_pipeline) (snd (initialize_chat_model no_split_env (ChatModel_init (llm_provider demo_pipeline) (llm_model demo_pipeline) (llm_api_key demo_pipeline)) empty_state))))))"] i6 l6 e6 p6 c6
  have w6: "fst (answer_operation no_split_env demo_pipeline (Some ''Term?'') empty_state) = Inr \<lparr>answer = ''It says so.'', context_docs = []\<rparr>" by (simp add: rt)
  have i7f: "fst (initialize_chat_model no_embed_env (ChatModel_init (llm_provider demo_pipeline) (llm_model demo_pipeline) (llm_api_key demo_pipeline)) empty_state) = Inr demo_model" by code_simp
  have i7: "initialize_chat_model no_embed_env (ChatModel_init (llm_provider demo_pipeline) (llm_model demo_pipeline) (llm_api_key demo_pipeline)) empty_state = (Inr demo_model, (snd (initialize_chat_model no_embed_env (ChatModel_init (llm_provider demo_pipeline) (llm_model demo_pipeline) (llm_api_key demo_pipeline)) empty_state)))"
    using i7f by (simp add: prod_eq_iff)
  have l7f: "fst (load_document no_embed_env ''uploads'' (uploaded_file demo_pipeline) (snd (initialize_chat_model no_embed_env (ChatModel_init (llm_provider demo_pipeline) (llm_model demo_pipeline) (llm_api_key demo_pipeline)) empty_state))) = Inr demo_docs" by code_simp
  have l7: "load_document no_embed_env ''uploads'' (uploaded_file demo_pipeline) (snd (initialize_chat_model no_embed_env (ChatModel_init (llm_provider demo_pipeline) (llm_model demo_pipeline) (llm_api_key demo_pipeline)) empty_state)) = (Inr demo_docs, (snd (load_document no_embed_env ''uploads'' (uploaded_file demo_pipeline) (snd (initialize_chat_model no_embed_env (ChatModel_init (llm_provider demo_pipeline) (llm_model demo_pipeline) (llm_api_key demo_pipeline)) empty_state)))))"
    using l7f by (simp add: prod_eq_iff)
  have e7: "create_embeddings no_embed_env = Inr (HuggingFaceEmbeddings ''sentence-transformers/all-MiniLM-L6-v2'')" by code_simp
  have p7: "split_documents no_embed_env 1200 150 demo_docs = Inr demo_docs"
    by (simp add: no_embed_env_def demo_env_def)
  have t7: "store (snd (load_document no_embed_env ''uploads'' (uploaded_file demo_pipeline) (snd (initialize_chat_model no_embed_env (ChatModel_init (llm_provider demo_pipeline) (llm_model demo_pipeline) (llm_api_key demo_pipeline)) empty_state)))) (or_str (Some (fst (splitext (basename (uploaded_file demo_pipeline))))) ''contract'') = []" by code_simp
  have b7: "\<not> embeds_ok no_embed_env (HuggingFaceEmbeddings ''sentence-transformers/all-MiniLM-L6-v2'') demo_docs" by code_simp
  have c7: "chat no_embed_env demo_model (format_messages [] (strip (or_str (Some ''Term?'') []))) = Inr \<lparr>content = Some ''It says so.'', str_repr = ''AIMessage''\<rparr>"
    by (simp add: no_embed_env_def demo_env_def)
  from answer_failures_propagate [OF ne, where e = "no_embed_env"
      and rp = "demo_pipeline"
      and s = "empty_state"
      and err = "(BackendError ''AuthenticationError'')"
      and cm = "demo_model"
      and docs = "demo_docs"
      and emb = "(HuggingFaceEmbeddings ''sentence-transformers/all-MiniLM-L6-v2'')"
      and r = "(as_retriever ''lease'')"
      and rt = "(Some (as_retriever ''lease''))"
      and ds = "demo_docs"
      and res = "\<lparr>content = Some ''It says so.'', str_repr = ''AIMessage''\<rparr>"
      and splits = "demo_docs"
      and ?s0.0 = "(snd (initialize_chat_model no_embed_env (ChatModel_init (llm_provider demo_pipeline) (llm_model demo_pipeline) (llm_api_key demo_pipeline)) empty_state))"
      and ?s1.0 = "(snd (load_document no_embed_env ''uploads'' (uploaded_file demo_pipeline) (snd (initialize_chat_model no_embed_env (ChatModel_init (llm_provider demo_pipeline) (llm_model demo_pipeline) (llm_api_key demo_pipeline)) empty_state))))"
      and ?s2.0 = "(snd (get_retriever no_embed_env (Retriever_init demo_docs (HuggingFaceEmbeddings ''sentence-transformers/all-MiniLM-L6-v2'') (vector_db_path demo_pipeline) (Some (or_str (Some (fst (splitext (basename (uploaded_file demo_pipeline))))) ''contract''))) (snd (load_document no_embed_env ''uploads'' (uploaded_file demo_pipeline) (snd (initialize_chat_model no_embed_env (ChatModel_init (llm_provider demo_pipeline) (llm_model demo_pipeline) (llm_api_key demo_pipeline)) empty_state))))))"] i7 l7 e7 p7 t7 b7 c7
  have w7: "fst (answer_operation no_embed_env demo_pipeline (Some ''Term?'') empty_state) = Inr \<lparr>answer = ''It says so.'', context_docs = []\<rparr>" by (simp add: rt)
  have f7: "embed no_embed_env (HuggingFaceEmbeddings ''sentence-transformers/all-MiniLM-L6-v2'') ''Clause one.'' = Inl (BackendError ''AuthenticationError'')"
    by (simp add: no_embed_env_def)
  show ?thesis
    using demo_q i1f w1 w1c f2 w2 e3 w3 f4 w4 f5 w5 p6 w6 f7 w7 by simp
qed

text \<open>
  The claim as stated fails: with nothing persisted and an embedding backend that
  rejects every call, the index build fails inside \<open>get_retriever\<close>, and the Answer
  operation still returns an answer, produced from the empty context, and no error.
\<close>

theorem index_failure_answers_from_empty_context:
  "embed no_embed_env OpenAIEmbeddings ''Clause one.''
     = Inl (BackendError ''AuthenticationError'') \<and>
   store empty_state ''lease'' = [] \<and>
   fst (qa_chain no_embed_env demo_pipeline empty_state) = Inr (demo_model, None) \<and>
   fst (answer_operation no_embed_env demo_pipeline (Some ''Term?'') empty_state)
     = Inr \<lparr>answer = ''It says so.'', context_docs = []\<rparr>"
  by code_simp

section \<open>Credential resolution in the chat route\<close>

lemma dropWhile_snoc_keep: "\<not> P c \<Longrightarrow> \<exists>ys. dropWhile P (xs @ [c]) = ys @ [c]"
  by (induction xs) auto

lemma lstrip_strip: "lstrip (strip s) = strip s"
proof (cases "dropWhile isspace s")
  case Nil
  have "strip s = []" unfolding strip_def lstrip_def rstrip_def Nil by simp
  then show ?thesis by (simp add: lstrip_def)
next
  case (Cons c cs)
  then have "dropWhile isspace s \<noteq> []" by simp
  then have "\<not> isspace (hd (dropWhile isspace s))" by (rule hd_dropWhile)
  with Cons have c: "\<not> isspace c" by simp
  from dropWhile_snoc_keep [where P = isspace and c = c and xs = "rev cs"] c
  obtain ys where ys: "dropWhile isspace (rev cs @ [c]) = ys @ [c]" by blast
  have "strip s = c # rev ys"
    unfolding strip_def lstrip_def rstrip_def Cons using ys by simp
  then show ?thesis using c by (simp add: lstrip_def)
qed

lemma rstrip_rstrip: "rstrip (rstrip s) = rstrip s"
proof -
  have "dropWhile isspace (dropWhile isspace (rev s)) = dropWhile isspace (rev s)"
    by simp
  then show ?thesis by (simp add: rstrip_def)
qed

lemma strip_idem: "strip (strip s) = strip s"
proof -
  have "strip (strip s) = rstrip (lstrip (strip s))" by (simp add: strip_def)
  also have "\<dots> = rstrip (strip s)" by (simp add: lstrip_strip)
  also have "\<dots> = rstrip (rstrip (lstrip s))" by (simp add: strip_def)
  also have "\<dots> = strip s" by (simp add: rstrip_rstrip strip_def)
  finally show ?thesis .
qed

lemma chain_last_call:
  assumes "strip (or_str inp []) \<noteq> []"
    and "create_retrieval_qa_chain e cm rt inp s = (Inr res, s2)"
  shows "\<exists>msgs. last (calls s2) = EvChat cm msgs"
  using assms
  by (cases rt)
     (auto simp: create_retrieval_qa_chain_def Let_def chat_invoke_def emit_def
        get_relevant_documents_def split: sum.splits prod.splits)

lemma construct_chat_model_key:
  "fst (construct_chat_model e cm s) = Inr cm' \<Longrightarrow> cm' = cm"
  by (auto simp: construct_chat_model_def split: option.splits)

lemma initialize_chat_model_key:
  "fst (initialize_chat_model e c s) = Inr cm \<Longrightarrow> model_key cm = api_key c"
  by (auto simp: initialize_chat_model_def split: if_splits dest!: construct_chat_model_key)

lemma qa_chain_model_key:
  "fst (qa_chain e rp s) = Inr (cm, rt) \<Longrightarrow> model_key cm = llm_api_key rp"
proof -
  assume a: "fst (qa_chain e rp s) = Inr (cm, rt)"
  let ?c = "ChatModel_init (llm_provider rp) (llm_model rp) (llm_api_key rp)"
  obtain r0 s0 where i: "initialize_chat_model e ?c s = (r0, s0)"
    by (cases "initialize_chat_model e ?c s")
  from a i obtain cm0 where r0: "r0 = Inr cm0"
    by (cases r0) (auto simp: qa_chain_def)
  from a i r0 have "cm0 = cm"
    by (cases "pipeline e rp s0") (auto simp: qa_chain_def split: sum.splits)
  moreover from i r0 have "model_key cm0 = api_key ?c"
    using initialize_chat_model_key [of e ?c s cm0] by simp
  ultimately show ?thesis by (simp add: ChatModel_init_def)
qed

lemma chat_with_document_unfold:
  assumes q: "strip (or_str (question req) []) = q" "q \<noteq> []"
    and d: "find (\<lambda>d. doc_id d = did \<and> user_id d = uid) (documents_table db) = Some document"
    and st: "get_or_create_llm_settings db uid = (st, db1)"
    and p: "resolve_provider req st = p" "p \<in> {''openai'', ''gemini'', ''claude'', ''groq''}"
    and key: "resolve_api_key e st p = Some key"
  shows "chat_with_document e req uid did db s =
    (if \<not> truthy key
     then ((400, ErrorBody (''No API key configured for provider '' @ title p)), db1, s)
     else
       (case qa_chain e
               \<lparr>uploaded_file = filename document, vector_db_path = vector_store_db,
                llm_provider = p, llm_model = resolve_model req st p, llm_api_key = key\<rparr> s of
          (Inl err, s1) \<Rightarrow> ((500, ErrorBody ''Failed to analyze document''), db1, s1)
        | (Inr (cm, rt), s1) \<Rightarrow>
            (let db2 = db1\<lparr>documents_table :=
                   update_document (document\<lparr>indexed := True\<rparr>) (documents_table db1)\<rparr>
             in case create_retrieval_qa_chain e cm rt (Some q) s1 of
                  (Inl err, s2) \<Rightarrow> ((500, ErrorBody ''Error generating answer''), db2, s2)
                | (Inr res, s2) \<Rightarrow>
                    (let contexts = serialize_contexts (context_docs res);
                         entry =
                           \<lparr>chat_id = next_id (map chat_id (chat_table db2)),
                            chat_user_id = uid, chat_document_id = doc_id document,
                            chat_question = q, chat_answer = answer res,
                            context_json = (if contexts = [] then None else Some contexts)\<rparr>
                     in ((200, ChatBody (chat_id entry) (chat_answer entry) contexts),
                         db2\<lparr>chat_table := chat_table db2 @ [entry]\<rparr>, s2)))))"
  using assms unfolding chat_with_document_def Let_def
  by auto


lemma truthy_or_opt: "truthy (or_opt a b) \<longleftrightarrow> truthy a \<or> truthy b"
  by (auto simp: truthy_def or_opt_def split: option.splits)

lemma or_opt_precedence: "or_opt a b = (if truthy a then a else b)"
  by (auto simp: truthy_def or_opt_def split: option.splits)

text \<open>
  Claim C4.  In \<open>chat_with_document\<close>, for a request with a question, an existing
  document and one of the four providers: the API key is the key stored for the user
  when that is present (neither missing nor empty), and otherwise the key of the
  provider's environment variable; when neither is present the route answers 400 with
  the configuration error \<open>No API key configured for provider\<close> and the state is
  unchanged, so that no loader, embedding, vector-store or chat call has been made; and
  when the route answers 200, the chat call it made used a model constructed with the
  resolved key.
\<close>

theorem credential_resolution:
  assumes q: "strip (or_str (question req) []) \<noteq> []"
    and d: "find (\<lambda>d. doc_id d = did \<and> user_id d = uid) (documents_table db) = Some document"
    and st: "get_or_create_llm_settings db uid = (st, db1)"
    and p: "resolve_provider req st = p" "p \<in> {''openai'', ''gemini'', ''claude'', ''groq''}"
  shows
   "resolve_api_key e st ''openai'' =
      Some (if truthy (openai_api_key st) then openai_api_key st else getenv e ''OPENAI_API_KEY'')
  \<and> resolve_api_key e st ''gemini'' =
      Some (if truthy (gemini_api_key st) then gemini_api_key st else getenv e ''GEMINI_API_KEY'')
  \<and> resolve_api_key e st ''claude'' =
      Some (if truthy (claude_api_key st) then claude_api_key st
            else getenv e ''ANTHROPIC_API_KEY'')
  \<and> resolve_api_key e st ''groq'' =
      Some (if truthy (groq_api_key st) then groq_api_key st else getenv e ''GROQ_API_KEY'')
  \<and> (\<exists>key. resolve_api_key e st p = Some key)
  \<and> (resolve_api_key e st p = Some key \<and> \<not> truthy key \<longrightarrow>
        chat_with_document e req uid did db s =
          ((400, ErrorBody (''No API key configured for provider '' @ title p)), db1, s))
  \<and> (resolve_api_key e st p = Some key \<and> truthy key
        \<and> fst (fst (chat_with_document e req uid did db s)) = 200 \<longrightarrow>
        (\<exists>cm msgs. last (calls (snd (snd (chat_with_document e req uid did db s))))
                      = EvChat cm msgs \<and> model_key cm = key))"
proof (intro conjI impI)
  show "resolve_api_key e st ''openai'' =
      Some (if truthy (openai_api_key st) then openai_api_key st else getenv e ''OPENAI_API_KEY'')"
    by (simp add: resolve_api_key_def or_opt_precedence)
  show "resolve_api_key e st ''gemini'' =
      Some (if truthy (gemini_api_key st) then gemini_api_key st else getenv e ''GEMINI_API_KEY'')"
    by (simp add: resolve_api_key_def or_opt_precedence)
  show "resolve_api_key e st ''claude'' =
      Some (if truthy (claude_api_key st) then claude_api_key st
            else getenv e ''ANTHROPIC_API_KEY'')"
    by (simp add: resolve_api_key_def or_opt_precedence)
  show "resolve_api_key e st ''groq'' =
      Some (if truthy (groq_api_key st) then groq_api_key st else getenv e ''GROQ_API_KEY'')"
    by (simp add: resolve_api_key_def or_opt_precedence)
  show "\<exists>key. resolve_api_key e st p = Some key"
    using p(2) by (auto simp: resolve_api_key_def)
next
  assume a: "resolve_api_key e st p = Some key \<and> \<not> truthy key"
  then show "chat_with_document e req uid did db s =
          ((400, ErrorBody (''No API key configured for provider '' @ title p)), db1, s)"
    using chat_with_document_unfold [OF refl q d st p, of e key s] by simp
next
  assume a: "resolve_api_key e st p = Some key \<and> truthy key
        \<and> fst (fst (chat_with_document e req uid did db s)) = 200"
  let ?rp = "\<lparr>uploaded_file = filename document, vector_db_path = vector_store_db,
              llm_provider = p, llm_model = resolve_model req st p, llm_api_key = key\<rparr>"
  let ?q = "strip (or_str (question req) [])"
  note u = chat_with_document_unfold [OF refl q d st p, of e key s]
  obtain r1 s1 where qa: "qa_chain e ?rp s = (r1, s1)" by (cases "qa_chain e ?rp s")
  show "\<exists>cm msgs. last (calls (snd (snd (chat_with_document e req uid did db s))))
                      = EvChat cm msgs \<and> model_key cm = key"
  proof (cases r1)
    case (Inl err)
    with a u qa show ?thesis by simp
  next
    case (Inr pr)
    obtain cm rt where pr: "pr = (cm, rt)" by (cases pr)
    from qa Inr pr have "fst (qa_chain e ?rp s) = Inr (cm, rt)" by simp
    then have mk: "model_key cm = key" using qa_chain_model_key [of e ?rp s cm rt] by simp
    obtain r2 s2 where ch: "create_retrieval_qa_chain e cm rt (Some ?q) s1 = (r2, s2)"
      by (cases "create_retrieval_qa_chain e cm rt (Some ?q) s1")
    show ?thesis
    proof (cases r2)
      case (Inl err)
      with a u qa Inr pr ch show ?thesis by (simp add: Let_def)
    next
      case (Inr res)
      have ne: "strip (or_str (Some ?q) []) \<noteq> []"
        using q by (simp add: or_str_def strip_idem)
      from chain_last_call [OF ne] ch Inr
      obtain msgs where "last (calls s2) = EvChat cm msgs" by blast
      moreover have "snd (snd (chat_with_document e req uid did db s)) = s2"
        using a u qa \<open>r1 = Inr pr\<close> pr ch Inr by (simp add: Let_def)
      ultimately show ?thesis using mk by simp
    qed
  qed
qed


theorem credential_resolution_witness:
  "strip (or_str (question demo_request) []) \<noteq> [] \<and>
   find (\<lambda>d. doc_id d = 2 \<and> user_id d = 8) (documents_table demo_db)
     = Some (lease_doc\<lparr>doc_id := 2, user_id := 8\<rparr>) \<and>
   resolve_provider demo_request default_settings = ''openai'' \<and>
   resolve_api_key demo_env default_settings ''openai'' = Some None \<and>
   fst (chat_with_document demo_env demo_request 8 2 demo_db empty_state)
     = (400, ErrorBody ''No API key configured for provider Openai'') \<and>
   snd (snd (chat_with_document demo_env demo_request 8 2 demo_db empty_state)) = empty_state \<and>
   resolve_api_key keyed_env (default_settings\<lparr>openai_api_key := Some ''sk-user''\<rparr>) ''openai''
     = Some (Some ''sk-user'') \<and>
   resolve_api_key keyed_env default_settings ''openai'' = Some (Some ''sk-env'') \<and>
   fst (fst (chat_with_document keyed_env demo_request 7 1 demo_db empty_state)) = 200 \<and>
   (\<exists>cm msgs.
      last (calls (snd (snd (chat_with_document keyed_env demo_request 7 1 demo_db empty_state))))
        = EvChat cm msgs \<and> model_key cm = Some ''sk-user'')"
proof -
  let ?st7 = "default_settings\<lparr>openai_api_key := Some ''sk-user''\<rparr>"
  let ?db8 = "demo_db\<lparr>settings_table := settings_table demo_db @ [(8, default_settings)]\<rparr>"
  have q: "strip (or_str (question demo_request) []) \<noteq> []" by code_simp
  have d8: "find (\<lambda>d. doc_id d = 2 \<and> user_id d = 8) (documents_table demo_db)
     = Some (lease_doc\<lparr>doc_id := 2, user_id := 8\<rparr>)" by code_simp
  have d7: "find (\<lambda>d. doc_id d = 1 \<and> user_id d = 7) (documents_table demo_db) = Some lease_doc"
    by code_simp
  have st8: "get_or_create_llm_settings demo_db 8 = (default_settings, ?db8)" by code_simp
  have st7: "get_or_create_llm_settings demo_db 7 = (?st7, demo_db)" by code_simp
  have p8: "resolve_provider demo_request default_settings = ''openai''" by code_simp
  have p7: "resolve_provider demo_request ?st7 = ''openai''" by code_simp
  have mem: "''openai'' \<in> {''openai'', ''gemini'', ''claude'', ''groq''}" by simp
  have tt: "title ''openai'' = ''Openai''" by code_simp
  have k8: "resolve_api_key demo_env default_settings ''openai'' = Some None" by code_simp
  have k7: "resolve_api_key keyed_env ?st7 ''openai'' = Some (Some ''sk-user'')" by code_simp
  have kenv: "resolve_api_key keyed_env default_settings ''openai'' = Some (Some ''sk-env'')"
    by code_simp
  have ok: "fst (fst (chat_with_document keyed_env demo_request 7 1 demo_db empty_state)) = 200"
    by code_simp
  from credential_resolution [OF q d8 st8 p8 mem, where e = demo_env and key = None
      and s = empty_state] k8
  have r8: "chat_with_document demo_env demo_request 8 2 demo_db empty_state =
          ((400, ErrorBody (''No API key configured for provider '' @ title ''openai'')),
           ?db8, empty_state)"
    by (simp add: truthy_def)
  from credential_resolution [OF q d7 st7 p7 mem, where e = keyed_env
      and key = "Some ''sk-user''" and s = empty_state] k7 ok
  have r7: "\<exists>cm msgs.
      last (calls (snd (snd (chat_with_document keyed_env demo_request 7 1 demo_db empty_state))))
        = EvChat cm msgs \<and> model_key cm = Some ''sk-user''"
    by (simp add: truthy_def)
  show ?thesis
    using q d8 p8 k8 k7 kenv ok r7 by (simp add: r8 tt)
qed

section \<open>Loading a PDF\<close>

text \<open>
  Claim C5, as the code has it.  For an existing file whose extension is \<open>.pdf\<close> in
  any letter case: the first loader is tried; when it succeeds its documents are
  returned and the second loader is not called; when it raises, whatever it raises, the
  second loader is called, inside the handler; when the second loader succeeds its
  documents are returned; when it raises too, the exception that reaches the caller is
  the second loader's own, of the second loader's class, with the first loader's
  exception attached as its context.  So the load fails exactly when both loaders fail.
\<close>

theorem pdf_fallback:
  assumes ex: "path_exists e (resolve_path dir f)"
    and pdf: "lower (snd (splitext (resolve_path dir f))) = ''.pdf''"
  shows
   "(PyPDFLoader e (resolve_path dir f) = Inr docs \<longrightarrow>
       load_document e dir f s =
         (Inr docs, emit (EvLoad ''PyPDFLoader'' (resolve_path dir f)) s))
  \<and> (PyPDFLoader e (resolve_path dir f) = Inl a
       \<and> PyMuPDFLoader e (resolve_path dir f) = Inr docs \<longrightarrow>
       load_document e dir f s =
         (Inr docs,
          emit (EvLoad ''PyMuPDFLoader'' (resolve_path dir f))
            (emit (EvLoad ''PyPDFLoader'' (resolve_path dir f)) s)))
  \<and> (PyPDFLoader e (resolve_path dir f) = Inl a
       \<and> PyMuPDFLoader e (resolve_path dir f) = Inl b \<longrightarrow>
       load_document e dir f s =
         (Inl (WithContext b a),
          emit (EvLoad ''PyMuPDFLoader'' (resolve_path dir f))
            (emit (EvLoad ''PyPDFLoader'' (resolve_path dir f)) s))
       \<and> exn_class (WithContext b a) = exn_class b)
  \<and> ((\<exists>err. fst (load_document e dir f s) = Inl err) \<longleftrightarrow>
       (\<exists>a' b'. PyPDFLoader e (resolve_path dir f) = Inl a'
                \<and> PyMuPDFLoader e (resolve_path dir f) = Inl b'))"
  using assms
  by (cases "PyPDFLoader e (resolve_path dir f)"; cases "PyMuPDFLoader e (resolve_path dir f)")
     (auto simp: load_document_def Let_def)

theorem pdf_fallback_witness:
  "path_exists pdf_env_a (resolve_path ''uploads'' ''lease.pdf'') \<and>
   lower (snd (splitext (resolve_path ''uploads'' ''lease.pdf''))) = ''.pdf'' \<and>
   PyPDFLoader pdf_env_a (resolve_path ''uploads'' ''lease.pdf'')
     = Inl (BackendError ''PdfReadError'') \<and>
   PyMuPDFLoader pdf_env_a (resolve_path ''uploads'' ''lease.pdf'')
     = Inl (BackendError ''FileDataError'') \<and>
   load_document pdf_env_a ''uploads'' ''lease.pdf'' empty_state
     = (Inl (WithContext (BackendError ''FileDataError'') (BackendError ''PdfReadError'')),
        emit (EvLoad ''PyMuPDFLoader'' (resolve_path ''uploads'' ''lease.pdf''))
          (emit (EvLoad ''PyPDFLoader'' (resolve_path ''uploads'' ''lease.pdf''))
             empty_state)) \<and>
   path_exists pdf_env_c (resolve_path ''uploads'' ''lease.pdf'') \<and>
   PyPDFLoader pdf_env_c (resolve_path ''uploads'' ''lease.pdf'')
     = Inl (BackendError ''PdfReadError'') \<and>
   PyMuPDFLoader pdf_env_c (resolve_path ''uploads'' ''lease.pdf'') = Inr demo_docs \<and>
   load_document pdf_env_c ''uploads'' ''lease.pdf'' empty_state
     = (Inr demo_docs,
        emit (EvLoad ''PyMuPDFLoader'' (resolve_path ''uploads'' ''lease.pdf''))
          (emit (EvLoad ''PyPDFLoader'' (resolve_path ''uploads'' ''lease.pdf''))
             empty_state)) \<and>
   path_exists demo_env (resolve_path ''uploads'' ''lease.pdf'') \<and>
   PyPDFLoader demo_env (resolve_path ''uploads'' ''lease.pdf'') = Inr demo_docs \<and>
   load_document demo_env ''uploads'' ''lease.pdf'' empty_state
     = (Inr demo_docs,
        emit (EvLoad ''PyPDFLoader'' (resolve_path ''uploads'' ''lease.pdf'')) empty_state)"
proof -
  have ex: "path_exists pdf_env_a (resolve_path ''uploads'' ''lease.pdf'')" by code_simp
  have exc: "path_exists pdf_env_c (resolve_path ''uploads'' ''lease.pdf'')" by code_simp
  have exd: "path_exists demo_env (resolve_path ''uploads'' ''lease.pdf'')" by code_simp
  have pdf: "lower (snd (splitext (resolve_path ''uploads'' ''lease.pdf''))) = ''.pdf''"
    by code_simp
  have a: "PyPDFLoader pdf_env_a (resolve_path ''uploads'' ''lease.pdf'')
             = Inl (BackendError ''PdfReadError'')"
    by (simp add: pdf_env_a_def)
  have b: "PyMuPDFLoader pdf_env_a (resolve_path ''uploads'' ''lease.pdf'')
             = Inl (BackendError ''FileDataError'')"
    by (simp add: pdf_env_a_def)
  have ac: "PyPDFLoader pdf_env_c (resolve_path ''uploads'' ''lease.pdf'')
             = Inl (BackendError ''PdfReadError'')"
    by (simp add: pdf_env_c_def)
  have bc: "PyMuPDFLoader pdf_env_c (resolve_path ''uploads'' ''lease.pdf'') = Inr demo_docs"
    by (simp add: pdf_env_c_def demo_env_def)
  have ad: "PyPDFLoader demo_env (resolve_path ''uploads'' ''lease.pdf'') = Inr demo_docs"
    by (simp add: demo_env_def)
  from pdf_fallback [OF ex pdf, where a = "BackendError ''PdfReadError''"
      and b = "BackendError ''FileDataError''" and s = empty_state and docs = demo_docs] a b
  have w1: "load_document pdf_env_a ''uploads'' ''lease.pdf'' empty_state
     = (Inl (WithContext (BackendError ''FileDataError'') (BackendError ''PdfReadError'')),
        emit (EvLoad ''PyMuPDFLoader'' (resolve_path ''uploads'' ''lease.pdf''))
          (emit (EvLoad ''PyPDFLoader'' (resolve_path ''uploads'' ''lease.pdf''))
             empty_state))"
    by simp
  from pdf_fallback [OF exc pdf, where a = "BackendError ''PdfReadError''"
      and b = "BackendError ''FileDataError''" and s = empty_state and docs = demo_docs] ac bc
  have w2: "load_document pdf_env_c ''uploads'' ''lease.pdf'' empty_state
     = (Inr demo_docs,
        emit (EvLoad ''PyMuPDFLoader'' (resolve_path ''uploads'' ''lease.pdf''))
          (emit (EvLoad ''PyPDFLoader'' (resolve_path ''uploads'' ''lease.pdf''))
             empty_state))"
    by simp
  from pdf_fallback [OF exd pdf, where a = "BackendError ''PdfReadError''"
      and b = "BackendError ''FileDataError''" and s = empty_state and docs = demo_docs] ad
  have w3: "load_document demo_env ''uploads'' ''lease.pdf'' empty_state
     = (Inr demo_docs,
        emit (EvLoad ''PyPDFLoader'' (resolve_path ''uploads'' ''lease.pdf'')) empty_state)"
    by simp
  show ?thesis
    using ex pdf a b w1 exc ac bc w2 exd ad w3 by simp
qed

text \<open>
  The claim as stated fails.  The handler is \<open>except Exception\<close>: it names no error
  type and records nothing.  When both loaders fail, what reaches the caller is the
  second loader's exception, of the second loader's class, and not a \<open>ParseError\<close>
  over the attempts as the typed sequence of the specification gives.
\<close>

theorem pdf_failure_is_the_secondary_error:
  "fst (load_document pdf_env_a ''uploads'' ''lease.pdf'' empty_state)
     = Inl (WithContext (BackendError ''FileDataError'') (BackendError ''PdfReadError'')) \<and>
   exn_class (WithContext (BackendError ''FileDataError'') (BackendError ''PdfReadError''))
     = ''FileDataError'' \<and>
   load_pdf_typed pdf_env_a ''uploads/lease.pdf''
     = Inl (ParseError [BackendError ''PdfReadError'', BackendError ''FileDataError'']) \<and>
   failure_class (ParseError [BackendError ''PdfReadError'', BackendError ''FileDataError''])
     = ''ParseError'' \<and>
   calls (snd (load_document pdf_env_a ''uploads'' ''lease.pdf'' empty_state))
     = [EvLoad ''PyPDFLoader'' ''uploads/lease.pdf'',
        EvLoad ''PyMuPDFLoader'' ''uploads/lease.pdf'']"
  by code_simp

section \<open>Selecting the embedding provider\<close>

text \<open>
  Claim C6, as the code has it.  When the override, trimmed and lower-cased, is
  \<open>openai\<close> or \<open>huggingface\<close>, that provider is constructed; for any other value,
  and when there is none, the hosted provider is constructed if \<open>OPENAI_API_KEY\<close> is
  set and not empty, and the local model otherwise.
\<close>

theorem embedding_selection:
  "create_embeddings e =
     construct e
       (if EmbeddingsCreator_provider e = Some ''openai'' then OpenAIEmbeddings
        else if EmbeddingsCreator_provider e = Some ''huggingface''
          then HuggingFaceEmbeddings (hf_model e)
        else if truthy (getenv e ''OPENAI_API_KEY'') then OpenAIEmbeddings
        else HuggingFaceEmbeddings (hf_model e))"
  by (simp add: create_embeddings_def Let_def hf_model_def)

theorem embedding_selection_witness:
  "EmbeddingsCreator_provider override_env = Some ''huggingface'' \<and>
   truthy (getenv override_env ''OPENAI_API_KEY'') \<and>
   create_embeddings override_env
     = Inr (HuggingFaceEmbeddings ''sentence-transformers/all-MiniLM-L6-v2'') \<and>
   create_embeddings keyed_env = Inr OpenAIEmbeddings \<and>
   create_embeddings demo_env
     = Inr (HuggingFaceEmbeddings ''sentence-transformers/all-MiniLM-L6-v2'')"
proof -
  have p: "EmbeddingsCreator_provider override_env = Some ''huggingface''" by code_simp
  have t: "truthy (getenv override_env ''OPENAI_API_KEY'')" by code_simp
  have p2: "EmbeddingsCreator_provider keyed_env = None" by code_simp
  have t2: "truthy (getenv keyed_env ''OPENAI_API_KEY'')" by code_simp
  have p3: "EmbeddingsCreator_provider demo_env = None" by code_simp
  have t3: "\<not> truthy (getenv demo_env ''OPENAI_API_KEY'')" by code_simp
  have h: "hf_model override_env = ''sentence-transformers/all-MiniLM-L6-v2''"
    "hf_model demo_env = ''sentence-transformers/all-MiniLM-L6-v2''" by code_simp+
  have c: "construct override_env (HuggingFaceEmbeddings ''sentence-transformers/all-MiniLM-L6-v2'')
             = Inr (HuggingFaceEmbeddings ''sentence-transformers/all-MiniLM-L6-v2'')"
    "construct keyed_env OpenAIEmbeddings = Inr OpenAIEmbeddings"
    "construct demo_env (HuggingFaceEmbeddings ''sentence-transformers/all-MiniLM-L6-v2'')
             = Inr (HuggingFaceEmbeddings ''sentence-transformers/all-MiniLM-L6-v2'')"
    by code_simp+
  show ?thesis
    using embedding_selection [of override_env] embedding_selection [of keyed_env]
      embedding_selection [of demo_env] p t p2 t2 p3 t3 h c
    by simp
qed

text \<open>
  The claim as stated fails: an override that names another provider is configured and
  is not used; selection falls through to the credential test.
\<close>

theorem unrecognised_override_is_ignored:
  "getenv cohere_env ''LEGAL_EAGLE_EMBEDDINGS_PROVIDER'' = Some ''cohere'' \<and>
   EmbeddingsCreator_provider cohere_env = Some ''cohere'' \<and>
   create_embeddings cohere_env
     = Inr (HuggingFaceEmbeddings ''sentence-transformers/all-MiniLM-L6-v2'')"
  by code_simp

section \<open>Constructing the chat model\<close>



section \<open>The chunk listing\<close>









section \<open>Indexing at upload\<close>

lemma upload_always_created:
  "fst (fst (upload_document e uid storage_name original sz db s)) = 201"
  by (auto simp: upload_document_def Let_def split: prod.splits sum.splits)

lemma upload_pipeline_error_leaves_unindexed:
  assumes "fst (pipeline e (RAGPipeline_init storage_name vector_store_db) s) = Inl err"
  shows "\<exists>d. snd (fst (upload_document e uid storage_name original sz db s)) = DocumentBody d
             \<and> \<not> indexed d
             \<and> documents_table (fst (snd (upload_document e uid storage_name original sz db s)))
                 = documents_table db @ [d]"
  using assms
  by (cases "pipeline e (RAGPipeline_init storage_name vector_store_db) s")
     (auto simp: upload_document_def Let_def)

lemma upload_pipeline_return_marks_indexed:
  assumes "fst (pipeline e (RAGPipeline_init storage_name vector_store_db) s) = Inr rt"
  shows "\<exists>d. snd (fst (upload_document e uid storage_name original sz db s)) = DocumentBody d
             \<and> indexed d"
  using assms
  by (cases "pipeline e (RAGPipeline_init storage_name vector_store_db) s")
     (auto simp: upload_document_def Let_def)

lemma pipeline_load_failure:
  "fst (load_document e ''uploads'' (uploaded_file rp) s) = Inl err \<Longrightarrow>
   fst (pipeline e rp s) = Inl err"
  by (cases "load_document e ''uploads'' (uploaded_file rp) s") (auto simp: pipeline_def)

lemma pipeline_embeddings_failure:
  "fst (load_document e ''uploads'' (uploaded_file rp) s) = Inr docs \<Longrightarrow>
   create_embeddings e = Inl err \<Longrightarrow> fst (pipeline e rp s) = Inl err"
  by (cases "load_document e ''uploads'' (uploaded_file rp) s") (auto simp: pipeline_def)

lemma pipeline_index_failure_returns_None:
  assumes "fst (load_document e ''uploads'' (uploaded_file rp) s) = Inr docs"
    and "create_embeddings e = Inr emb"
    and "fst (get_retriever e
                (Retriever_init docs emb (vector_db_path rp)
                   (Some (or_str (Some (fst (splitext (basename (uploaded_file rp))))) ''contract'')))
                (snd (load_document e ''uploads'' (uploaded_file rp) s))) = None"
  shows "fst (pipeline e rp s) = Inr None"
  using assms
  by (cases "load_document e ''uploads'' (uploaded_file rp) s")
     (auto simp: pipeline_def Let_def split: prod.splits)

text \<open>
  Claim C9.  The upload answers 201 in every case, and an error that \<open>rag.pipeline()\<close>
  raises (a load or parse error, a failing embeddings constructor) leaves the stored
  document with \<open>indexed = False\<close>, as the claim says.  An error while the index is
  built does not reach the upload: \<open>get_retriever\<close> turns it into the result
  \<open>None\<close>, \<open>rag.pipeline()\<close> returns, and the upload stores \<open>indexed = True\<close>
  for a document whose collection is empty.  Here the embedding backend rejects every
  call.
\<close>

theorem upload_marks_failed_index_as_indexed:
  "embed no_embed_env (HuggingFaceEmbeddings ''sentence-transformers/all-MiniLM-L6-v2'')
       ''Clause one.'' = Inl (BackendError ''AuthenticationError'') \<and>
   fst (pipeline no_embed_env (RAGPipeline_init ''lease.txt'' vector_store_db) empty_state)
     = Inr None \<and>
   store (snd (pipeline no_embed_env (RAGPipeline_init ''lease.txt'' vector_store_db)
                 empty_state)) ''lease'' = [] \<and>
   fst (upload_document no_embed_env 7 ''lease.txt'' ''lease.txt'' 24 empty_db empty_state)
     = (201, DocumentBody
               \<lparr>doc_id = 1, user_id = 7, filename = ''lease.txt'',
                original_name = ''lease.txt'', file_path = ''uploads/lease.txt'',
                file_size = 24, indexed = True\<rparr>)"
  by code_simp


end
